theory Spec2Isabelle
  imports
    Complex_Main
    "HOL-Library.Char_ord"
    "HOL-Library.List_Lexorder"
    "HOL-Library.Sublist"
    "HOL-Library.Multiset"
begin

section \<open>Values, exceptions and the outside world\<close>

text \<open>
  \<^verbatim>\<open>app.py\<close> handles what \<^verbatim>\<open>response.json()\<close> returns without validating it, so
  the data are modelled as JSON values. A Python \<^verbatim>\<open>str\<close> is modelled by its UTF-8
  encoding: comparing two strings and searching one in another agree with Python's code
  point semantics on that encoding. A \<^verbatim>\<open>dict\<close> is the list of its items in insertion
  order, keys distinct. Floats are modelled by the real number they denote; the values
  \<^verbatim>\<open>NaN\<close> and \<^verbatim>\<open>Infinity\<close>, which Python's parser accepts beyond JSON, are not
  represented.
\<close>

datatype json =
    JNull
  | JBool bool
  | JInt int
  | JFloat real
  | JStr string
  | JArr "json list"
  | JObj "(string \<times> json) list"

text \<open>The exceptions that the modelled code can meet; all are subclasses of
  \<^verbatim>\<open>Exception\<close>.\<close>

datatype error =
    AttributeError
  | TypeError
  | ValueError
  | OverflowError
  | JSONDecodeError
  | RequestException

text \<open>Python's truth value of an object, as \<^verbatim>\<open>if x:\<close> and \<^verbatim>\<open>x and y\<close> read it.\<close>

fun truthy :: "json \<Rightarrow> bool" where
  "truthy JNull = False"
| "truthy (JBool b) = b"
| "truthy (JInt i) = (i \<noteq> 0)"
| "truthy (JFloat r) = (r \<noteq> 0)"
| "truthy (JStr s) = (s \<noteq> [])"
| "truthy (JArr xs) = (xs \<noteq> [])"
| "truthy (JObj kvs) = (kvs \<noteq> [])"

text \<open>\<^verbatim>\<open>x.get(key, default)\<close>: only a dict has the method.\<close>

fun py_get :: "json \<Rightarrow> string \<Rightarrow> json \<Rightarrow> error + json" where
  "py_get (JObj kvs) k d = Inr (case map_of kvs k of Some v \<Rightarrow> v | None \<Rightarrow> d)"
| "py_get _ k d = Inl AttributeError"

text \<open>The characters of a string: the number of bytes that encode the character
  starting with byte \<open>c\<close>, and the encoding cut into characters.\<close>

definition utf8_length :: "char \<Rightarrow> nat" where
  "utf8_length c =
     (if c < CHR 0x80 then 1 else if c < CHR 0xE0 then 2 else if c < CHR 0xF0 then 3 else 4)"

fun chars :: "string \<Rightarrow> string list" where
  "chars [] = []"
| "chars (c # cs) =
     (c # take (utf8_length c - 1) cs) # chars (drop (utf8_length c - 1) cs)"

text \<open>\<^verbatim>\<open>x[:n]\<close>: lists and strings can be sliced, nothing else among JSON values can; a
  string is cut after \<open>n\<close> characters.\<close>

fun py_take :: "nat \<Rightarrow> json \<Rightarrow> error + json" where
  "py_take n (JArr xs) = Inr (JArr (take n xs))"
| "py_take n (JStr s) = Inr (JStr (concat (take n (chars s))))"
| "py_take n _ = Inl TypeError"

text \<open>
  A call of \<^verbatim>\<open>requests.get\<close> either raises or returns a response with a status code
  and a body; \<^verbatim>\<open>response.json()\<close> raises on a body that is not JSON. The network is a
  function from the request sent to what comes back, and the world records every request
  sent.
\<close>

record request =
  url :: string
  headers :: "(string \<times> string) list"
  params :: "(string \<times> string) list"
  timeout :: nat

datatype outcome =
    Failed error
  | Replied int "error + json"

type_synonym network = "request \<Rightarrow> outcome"

text \<open>
  The mutable module state: the two fields of \<^verbatim>\<open>api_cache\<close>, the contents of the
  list \<^verbatim>\<open>FALLBACK_COMPETITIONS\<close> (the route handler sorts that list in place), and the
  log of requests sent.
\<close>

record world =
  cache_data :: json
  cache_timestamp :: real
  fallback_competitions :: "json list"
  sent :: "request list"

text \<open>A \<^verbatim>\<open>datetime\<close> object by its fields; \<open>utcoffset\<close> is \<open>None\<close> for a naive value
  and the offset in microseconds for an aware one.\<close>

record datetime =
  year :: nat
  month :: nat
  day :: nat
  hour :: nat
  minute :: nat
  second :: nat
  microsecond :: nat
  utcoffset :: "int option"

text \<open>
  What is fixed for the life of the process: \<^verbatim>\<open>API_KEY\<close> from the environment,
  \<^verbatim>\<open>FALLBACK_MATCHES\<close>, whose dates are computed at import, and two traits of the
  installed libraries. \<open>other_forms\<close> is what \<^verbatim>\<open>datetime.fromisoformat\<close> does with a
  string outside the format that every version of the library reads (see the section on
  parsing): Python 3.7 to 3.10 raise \<^verbatim>\<open>ValueError\<close> on all of them, later versions read
  some. \<open>pads_year\<close> tells whether the C library's \<^verbatim>\<open>strftime\<close> prints a year below
  1000 with leading zeros; glibc does not.
\<close>

record env =
  API_KEY :: "string option"
  FALLBACK_MATCHES :: "json list"
  other_forms :: "string \<Rightarrow> error + datetime"
  pads_year :: bool

definition key_configured :: "env \<Rightarrow> bool" where
  "key_configured e = (case API_KEY e of None \<Rightarrow> False | Some k \<Rightarrow> k \<noteq> [])"

definition API_BASE :: string where
  "API_BASE = ''https://api.football-data.org/v4''"

definition API_URL :: string where
  "API_URL = API_BASE @ ''/competitions''"

definition MATCHES_URL :: string where
  "MATCHES_URL = API_BASE @ ''/matches''"

definition CACHE_DURATION :: real where
  "CACHE_DURATION = 300"

section \<open>Static fallback competitions\<close>

definition competition :: "string \<Rightarrow> string \<Rightarrow> string \<Rightarrow> string \<Rightarrow> json" where
  "competition n c a p =
     JObj [(''name'', JStr n), (''code'', JStr c),
           (''area'', JObj [(''name'', JStr a)]), (''plan'', JStr p)]"

definition FALLBACK_COMPETITIONS :: "json list" where
  "FALLBACK_COMPETITIONS =
    [competition ''Premier League'' ''PL'' ''England'' ''TIER_ONE'',
     competition ''La Liga'' ''PD'' ''Spain'' ''TIER_ONE'',
     competition ''Bundesliga'' ''BL1'' ''Germany'' ''TIER_ONE'',
     competition ''Serie A'' ''SA'' ''Italy'' ''TIER_ONE'',
     competition ''Ligue 1'' ''FL1'' ''France'' ''TIER_ONE'',
     competition ''Eredivisie'' ''DED'' ''Netherlands'' ''TIER_ONE'',
     competition ''Primeira Liga'' ''PPL'' ''Portugal'' ''TIER_ONE'',
     competition ''Championship'' ''ELC'' ''England'' ''TIER_TWO'',
     competition ''UEFA Champions League'' ''CL'' ''Europe'' ''TIER_ONE'',
     competition ''FIFA World Cup'' ''WC'' ''World'' ''TIER_ONE'',
     competition (''Campeonato Brasileiro S'' @ [CHR 0xC3, CHR 0xA9] @ ''rie A'')
       ''BSA'' ''Brazil'' ''TIER_ONE'',
     competition ''Copa Libertadores'' ''CLI'' ''South America'' ''TIER_ONE'',
     competition ''European Championship'' ''EC'' ''Europe'' ''TIER_ONE'']"

text \<open>The state right after import.\<close>

definition initial_world :: world where
  "initial_world =
     \<lparr>cache_data = JNull, cache_timestamp = 0,
      fallback_competitions = FALLBACK_COMPETITIONS, sent = []\<rparr>"

text \<open>The fallback list holds the thirteen static entries, in some order.\<close>

definition fallback_intact :: "world \<Rightarrow> bool" where
  "fallback_intact w \<longleftrightarrow> mset (fallback_competitions w) = mset FALLBACK_COMPETITIONS"

section \<open>Fetching competitions\<close>

text \<open>The test of line 71: the cache holds something true and is younger than
  \<^verbatim>\<open>CACHE_DURATION\<close>.\<close>

definition cache_fresh :: "world \<Rightarrow> real \<Rightarrow> bool" where
  "cache_fresh w current_time \<longleftrightarrow>
     truthy (cache_data w) \<and> current_time - cache_timestamp w < CACHE_DURATION"

definition competitions_request :: "env \<Rightarrow> request" where
  "competitions_request e =
     \<lparr>url = API_URL,
      headers = (case API_KEY e of
                   None \<Rightarrow> []
                 | Some k \<Rightarrow> if k \<noteq> [] then [(''X-Auth-Token'', k)] else []),
      params = [], timeout = 10\<rparr>"

definition send :: "request \<Rightarrow> world \<Rightarrow> world" where
  "send rq w = w\<lparr>sent := sent w @ [rq]\<rparr>"

text \<open>The body of the \<^verbatim>\<open>try\<close> block of \<^verbatim>\<open>get_competitions_data\<close>, lines 75 to 86.\<close>

definition competitions_try ::
  "env \<Rightarrow> network \<Rightarrow> real \<Rightarrow> world \<Rightarrow> (error + json \<times> bool) \<times> world" where
  "competitions_try e net current_time w =
     (let rq = competitions_request e; w1 = send rq w in
      case net rq of
        Failed x \<Rightarrow> (Inl x, w1)
      | Replied status body \<Rightarrow>
          if status = 200 then
            (case body of
               Inl x \<Rightarrow> (Inl x, w1)
             | Inr data \<Rightarrow>
                 (case py_get data ''competitions'' (JArr []) of
                    Inl x \<Rightarrow> (Inl x, w1)
                  | Inr competitions \<Rightarrow>
                      (Inr (competitions, False),
                       w1\<lparr>cache_data := competitions, cache_timestamp := current_time\<rparr>)))
          else (Inr (JArr (fallback_competitions w1), True), w1))"

text \<open>\<^verbatim>\<open>get_competitions_data\<close>; \<open>current_time\<close> is what \<^verbatim>\<open>time.time()\<close> returns.
  Clock readings are taken as exact numbers of seconds, and so is their difference.\<close>

definition get_competitions_data ::
  "env \<Rightarrow> network \<Rightarrow> real \<Rightarrow> world \<Rightarrow> (error + json \<times> bool) \<times> world" where
  "get_competitions_data e net current_time w =
     (if cache_fresh w current_time then (Inr (cache_data w, False), w)
      else case competitions_try e net current_time w of
             (Inl x, w') \<Rightarrow> (Inr (JArr (fallback_competitions w'), True), w')
           | (Inr r, w') \<Rightarrow> (Inr r, w'))"

section \<open>Calendar dates and times\<close>

text \<open>The calendar arithmetic follows the library's proleptic Gregorian ordinals
  (day 1 is 0001-01-01).\<close>

definition is_leap :: "nat \<Rightarrow> bool" where
  "is_leap y \<longleftrightarrow> y mod 4 = 0 \<and> (y mod 100 \<noteq> 0 \<or> y mod 400 = 0)"

definition days_in_month :: "nat \<Rightarrow> nat \<Rightarrow> nat" where
  "days_in_month y m =
     (if m = 2 then (if is_leap y then 29 else 28)
      else if m = 4 \<or> m = 6 \<or> m = 9 \<or> m = 11 then 30 else 31)"

definition days_before_year :: "nat \<Rightarrow> nat" where
  "days_before_year y = (let p = y - 1 in p * 365 + p div 4 - p div 100 + p div 400)"

fun days_before_month :: "nat \<Rightarrow> nat \<Rightarrow> nat" where
  "days_before_month y m =
     (if m \<le> 1 then 0 else days_before_month y (m - 1) + days_in_month y (m - 1))"

definition ymd2ord :: "nat \<Rightarrow> nat \<Rightarrow> nat \<Rightarrow> nat" where
  "ymd2ord y m d = days_before_year y + days_before_month y m + d"

definition MAXORDINAL :: nat where
  "MAXORDINAL = 3652059"

text \<open>\<^verbatim>\<open>_ord2ymd\<close>: the date of an ordinal, through the 400, 100, 4 and 1 year
  cycles; the month is estimated as \<^verbatim>\<open>(n + 50) >> 5\<close> and corrected when too large.\<close>

definition ord2ymd :: "nat \<Rightarrow> nat \<times> nat \<times> nat" where
  "ord2ymd n =
     (let n0 = n - 1;
          n400 = n0 div 146097; r400 = n0 mod 146097;
          n100 = r400 div 36524; r100 = r400 mod 36524;
          n4 = r100 div 1461; r4 = r100 mod 1461;
          n1 = r4 div 365; r1 = r4 mod 365;
          y = n400 * 400 + 1 + n100 * 100 + n4 * 4 + n1
      in if n1 = 4 \<or> n100 = 4 then (y - 1, 12, 31)
         else
           (let m = (r1 + 50) div 32;
                preceding = days_before_month y m
            in if preceding > r1
               then (y, m - 1, r1 - (preceding - days_in_month y (m - 1)) + 1)
               else (y, m, r1 - preceding + 1)))"

definition DAY_US :: int where
  "DAY_US = 86400000000"

definition time_us :: "datetime \<Rightarrow> int" where
  "time_us t = ((int (hour t) * 60 + int (minute t)) * 60 + int (second t)) * 1000000
               + int (microsecond t)"

text \<open>\<^verbatim>\<open>dt + timedelta(...)\<close>, the delta in microseconds; the library raises
  \<^verbatim>\<open>OverflowError\<close> when the day leaves the range of ordinals.\<close>

definition plus_timedelta :: "datetime \<Rightarrow> int \<Rightarrow> error + datetime" where
  "plus_timedelta t delta =
     (let total = int (ymd2ord (year t) (month t) (day t)) * DAY_US + time_us t + delta;
          days = total div DAY_US;
          us = nat (total mod DAY_US)
      in if 0 < days \<and> days \<le> int MAXORDINAL then
           (case ord2ymd (nat days) of
              (y, m, d) \<Rightarrow>
                Inr (t\<lparr>year := y, month := m, day := d,
                       hour := us div 3600000000,
                       minute := us div 60000000 mod 60,
                       second := us div 1000000 mod 60,
                       microsecond := us mod 1000000\<rparr>))
         else Inl OverflowError)"

definition days :: "int \<Rightarrow> int" where
  "days k = k * DAY_US"

definition hours :: "int \<Rightarrow> int" where
  "hours k = k * 3600000000"

subsection \<open>Printing\<close>

definition digit_char :: "nat \<Rightarrow> char" where
  "digit_char d = ''0123456789'' ! (d mod 10)"

definition pad2 :: "nat \<Rightarrow> string" where
  "pad2 n = [digit_char (n div 10), digit_char n]"

definition pad4 :: "nat \<Rightarrow> string" where
  "pad4 n = [digit_char (n div 1000), digit_char (n div 100), digit_char (n div 10),
             digit_char n]"

definition pad6 :: "nat \<Rightarrow> string" where
  "pad6 n = [digit_char (n div 100000), digit_char (n div 10000), digit_char (n div 1000),
             digit_char (n div 100), digit_char (n div 10), digit_char n]"

text \<open>A number in decimal without padding, and the year as \<^verbatim>\<open>%Y\<close> prints it: in
  four digits from 1000 on, and below 1000 with or without leading zeros as the C library
  has it.\<close>

function decimal :: "nat \<Rightarrow> string" where
  "decimal n = (if n < 10 then [digit_char n] else decimal (n div 10) @ [digit_char n])"
  by pat_completeness auto
termination
  by (relation "measure (\<lambda>n. n)") auto

declare decimal.simps [simp del]

definition year_text :: "bool \<Rightarrow> nat \<Rightarrow> string" where
  "year_text padded y = (if padded then pad4 y else decimal y)"

text \<open>\<^verbatim>\<open>strftime('%Y-%m-%d')\<close>, \<^verbatim>\<open>strftime('%H:%M')\<close> and
  \<^verbatim>\<open>strftime('%B %d, %Y')\<close> in the C locale. The first is applied to clock readings
  only, whose years have four digits.\<close>

definition strftime_Ymd :: "datetime \<Rightarrow> string" where
  "strftime_Ymd t = pad4 (year t) @ ''-'' @ pad2 (month t) @ ''-'' @ pad2 (day t)"

definition strftime_HM :: "datetime \<Rightarrow> string" where
  "strftime_HM t = pad2 (hour t) @ '':'' @ pad2 (minute t)"

definition month_name :: "nat \<Rightarrow> string" where
  "month_name m =
     [''January'', ''February'', ''March'', ''April'', ''May'', ''June'', ''July'',
      ''August'', ''September'', ''October'', ''November'', ''December''] ! (m - 1)"

definition strftime_BdY :: "bool \<Rightarrow> datetime \<Rightarrow> string" where
  "strftime_BdY padded t =
     month_name (month t) @ '' '' @ pad2 (day t) @ '', '' @ year_text padded (year t)"

text \<open>\<^verbatim>\<open>isoformat()\<close> of a naive value, the year always in four digits: the fraction
  is printed only when it is not zero.\<close>

definition isoformat :: "datetime \<Rightarrow> string" where
  "isoformat t =
     pad4 (year t) @ ''-'' @ pad2 (month t) @ ''-'' @ pad2 (day t)
     @ ''T'' @ pad2 (hour t) @ '':'' @ pad2 (minute t) @ '':'' @ pad2 (second t)
     @ (if microsecond t = 0 then [] else ''.'' @ pad6 (microsecond t))"

section \<open>Static fallback matches\<close>

definition team :: "string \<Rightarrow> json" where
  "team n = JObj [(''name'', JStr n)]"

definition team_crest :: "string \<Rightarrow> string \<Rightarrow> json" where
  "team_crest n c = JObj [(''name'', JStr n), (''crest'', JStr c)]"

definition fixture :: "json \<Rightarrow> json \<Rightarrow> string \<Rightarrow> string \<Rightarrow> string \<Rightarrow> json \<Rightarrow> json \<Rightarrow> json" where
  "fixture h a date st c hs as =
     JObj [(''homeTeam'', h), (''awayTeam'', a), (''utcDate'', JStr date),
           (''status'', JStr st), (''competition'', JObj [(''name'', JStr c)]),
           (''score'', JObj [(''fullTime'', JObj [(''home'', hs), (''away'', as)])])]"

text \<open>The crests are emoji, written in UTF-8.\<close>

definition red_circle :: string where
  "red_circle = [CHR 0xF0, CHR 0x9F, CHR 0x94, CHR 0xB4]"

definition blue_circle :: string where
  "blue_circle = [CHR 0xF0, CHR 0x9F, CHR 0x94, CHR 0xB5]"

definition white_circle :: string where
  "white_circle = [CHR 0xE2, CHR 0x9A, CHR 0xAA]"

definition yellow_circle :: string where
  "yellow_circle = [CHR 0xF0, CHR 0x9F, CHR 0x9F, CHR 0xA1]"

text \<open>\<^verbatim>\<open>FALLBACK_MATCHES\<close> as lines 34 to 59 build it at import; \<open>clk i\<close> is what the
  \<open>i\<close>-th call of \<^verbatim>\<open>datetime.now()\<close> returns.\<close>

definition build_FALLBACK_MATCHES :: "(nat \<Rightarrow> datetime) \<Rightarrow> error + json list" where
  "build_FALLBACK_MATCHES clk =
     (case plus_timedelta (clk 0) (hours 2) of
        Inl x \<Rightarrow> Inl x
      | Inr t1 \<Rightarrow>
          (case plus_timedelta (clk 2) (hours (- 1)) of
             Inl x \<Rightarrow> Inl x
           | Inr t3 \<Rightarrow>
               Inr [fixture (team_crest ''Manchester United'' red_circle)
                      (team_crest ''Liverpool'' red_circle)
                      (isoformat t1) ''SCHEDULED'' ''Premier League'' JNull JNull,
                    fixture (team_crest ''Barcelona'' blue_circle)
                      (team_crest ''Real Madrid'' white_circle)
                      (isoformat (clk 1)) ''IN_PLAY'' ''La Liga'' (JInt 2) (JInt 1),
                    fixture (team_crest ''Bayern Munich'' red_circle)
                      (team_crest ''Borussia Dortmund'' yellow_circle)
                      (isoformat t3) ''FINISHED'' ''Bundesliga'' (JInt 3) (JInt 2)]))"

section \<open>Fetching matches\<close>

definition matches_request :: "string \<Rightarrow> string \<Rightarrow> string \<Rightarrow> request" where
  "matches_request k date_from date_to =
     \<lparr>url = MATCHES_URL, headers = [(''X-Auth-Token'', k)],
      params = [(''dateFrom'', date_from), (''dateTo'', date_to)], timeout = 10\<rparr>"

text \<open>The body of the \<^verbatim>\<open>try\<close> block of \<^verbatim>\<open>get_live_matches\<close>, lines 94 to 108;
  \<open>now\<close> is what \<^verbatim>\<open>datetime.now()\<close> returns.\<close>

definition live_try ::
  "env \<Rightarrow> network \<Rightarrow> datetime \<Rightarrow> world \<Rightarrow> (error + json \<times> bool) \<times> world" where
  "live_try e net now w =
     (case API_KEY e of
        None \<Rightarrow> (Inr (JArr (FALLBACK_MATCHES e), True), w)
      | Some k \<Rightarrow>
          if k = [] then (Inr (JArr (FALLBACK_MATCHES e), True), w)
          else
            (let today = strftime_Ymd now;
                 rq = matches_request k today today;
                 w1 = send rq w in
             case net rq of
               Failed x \<Rightarrow> (Inl x, w1)
             | Replied status body \<Rightarrow>
                 if status = 200 then
                   (case body of
                      Inl x \<Rightarrow> (Inl x, w1)
                    | Inr data \<Rightarrow>
                        (case py_get data ''matches'' (JArr []) of
                           Inl x \<Rightarrow> (Inl x, w1)
                         | Inr matches \<Rightarrow>
                             (case py_take 10 matches of
                                Inl x \<Rightarrow> (Inl x, w1)
                              | Inr first \<Rightarrow> (Inr (first, False), w1))))
                 else (Inr (JArr (FALLBACK_MATCHES e), True), w1)))"

definition get_live_matches ::
  "env \<Rightarrow> network \<Rightarrow> datetime \<Rightarrow> world \<Rightarrow> (error + json \<times> bool) \<times> world" where
  "get_live_matches e net now w =
     (case live_try e net now w of
        (Inl x, w') \<Rightarrow> (Inr (JArr (FALLBACK_MATCHES e), True), w')
      | (Inr r, w') \<Rightarrow> (Inr r, w'))"

text \<open>The list \<^verbatim>\<open>upcoming\<close> of lines 115 to 140, built outside the \<^verbatim>\<open>try\<close>
  block from the first three clock readings.\<close>

definition upcoming_fixtures :: "(nat \<Rightarrow> datetime) \<Rightarrow> error + json list" where
  "upcoming_fixtures clk =
     (case plus_timedelta (clk 0) (days 1) of
        Inl x \<Rightarrow> Inl x
      | Inr d1 \<Rightarrow>
          (case plus_timedelta (clk 1) (days 2) of
             Inl x \<Rightarrow> Inl x
           | Inr d2 \<Rightarrow>
               (case plus_timedelta (clk 2) (days 3) of
                  Inl x \<Rightarrow> Inl x
                | Inr d3 \<Rightarrow>
                    Inr [fixture (team ''Chelsea'') (team ''Arsenal'')
                           (isoformat d1) ''SCHEDULED'' ''Premier League'' JNull JNull,
                         fixture (team ''AC Milan'') (team ''Inter Milan'')
                           (isoformat d2) ''SCHEDULED'' ''Serie A'' JNull JNull,
                         fixture (team ''Paris Saint-Germain'') (team ''Marseille'')
                           (isoformat d3) ''SCHEDULED'' ''Ligue 1'' JNull JNull])))"

text \<open>The \<^verbatim>\<open>try\<close> block of \<^verbatim>\<open>get_upcoming_matches\<close> up to line 156: \<open>Inr None\<close>
  when control reaches line 159, \<open>Inr (Some r)\<close> when line 156 returns \<open>r\<close>.\<close>

definition upcoming_try ::
  "env \<Rightarrow> network \<Rightarrow> (nat \<Rightarrow> datetime) \<Rightarrow> world \<Rightarrow> (error + (json \<times> bool) option) \<times> world" where
  "upcoming_try e net clk w =
     (case API_KEY e of
        None \<Rightarrow> (Inr None, w)
      | Some k \<Rightarrow>
          if k = [] then (Inr None, w)
          else
            (case plus_timedelta (clk 3) (days 1) of
               Inl x \<Rightarrow> (Inl x, w)
             | Inr tomorrow \<Rightarrow>
                 (case plus_timedelta (clk 4) (days 7) of
                    Inl x \<Rightarrow> (Inl x, w)
                  | Inr week_ahead \<Rightarrow>
                      (let rq = matches_request k (strftime_Ymd tomorrow) (strftime_Ymd week_ahead);
                           w1 = send rq w in
                       case net rq of
                         Failed x \<Rightarrow> (Inl x, w1)
                       | Replied status body \<Rightarrow>
                           if status = 200 then
                             (case body of
                                Inl x \<Rightarrow> (Inl x, w1)
                              | Inr data \<Rightarrow>
                                  (case py_get data ''matches'' (JArr []) of
                                     Inl x \<Rightarrow> (Inl x, w1)
                                   | Inr real_matches \<Rightarrow>
                                       if truthy real_matches then
                                         (case py_take 5 real_matches of
                                            Inl x \<Rightarrow> (Inl x, w1)
                                          | Inr first \<Rightarrow> (Inr (Some (first, False)), w1))
                                       else (Inr None, w1)))
                           else (Inr None, w1)))))"

definition get_upcoming_matches ::
  "env \<Rightarrow> network \<Rightarrow> (nat \<Rightarrow> datetime) \<Rightarrow> world \<Rightarrow> (error + json \<times> bool) \<times> world" where
  "get_upcoming_matches e net clk w =
     (case upcoming_fixtures clk of
        Inl x \<Rightarrow> (Inl x, w)
      | Inr upcoming \<Rightarrow>
          (case upcoming_try e net clk w of
             (Inl x, w') \<Rightarrow> (Inr (JArr upcoming, True), w')
           | (Inr None, w') \<Rightarrow> (Inr (JArr upcoming, True), w')
           | (Inr (Some r), w') \<Rightarrow> (Inr r, w')))"

section \<open>Example inputs\<close>

definition net_const :: "outcome \<Rightarrow> network" where
  "net_const out rq = out"

definition example_import_time :: datetime where
  "example_import_time =
     \<lparr>year = 2025, month = 1, day = 30, hour = 10, minute = 0, second = 0,
      microsecond = 0, utcoffset = None\<rparr>"

definition example_FALLBACK_MATCHES :: "json list" where
  "example_FALLBACK_MATCHES =
     (case build_FALLBACK_MATCHES (\<lambda>i. example_import_time) of
        Inl x \<Rightarrow> []
      | Inr ms \<Rightarrow> ms)"

definition example_env :: env where
  "example_env =
     \<lparr>API_KEY = Some ''secret'', FALLBACK_MATCHES = example_FALLBACK_MATCHES,
      other_forms = (\<lambda>s. Inl ValueError), pads_year = False\<rparr>"

definition keyless_env :: env where
  "keyless_env =
     \<lparr>API_KEY = None, FALLBACK_MATCHES = example_FALLBACK_MATCHES,
      other_forms = (\<lambda>s. Inl ValueError), pads_year = False\<rparr>"

definition example_clock :: "nat \<Rightarrow> datetime" where
  "example_clock i = example_import_time\<lparr>hour := 12, microsecond := i\<rparr>"

definition two_competitions :: json where
  "two_competitions =
     JArr [competition ''Serie A'' ''SA'' ''Italy'' ''TIER_ONE'',
           competition ''La Liga'' ''PD'' ''Spain'' ''TIER_ONE'']"

definition example_upcoming :: "json list" where
  "example_upcoming =
     [fixture (team ''Chelsea'') (team ''Arsenal'')
        ''2025-01-31T12:00:00'' ''SCHEDULED'' ''Premier League'' JNull JNull,
      fixture (team ''AC Milan'') (team ''Inter Milan'')
        ''2025-02-01T12:00:00.000001'' ''SCHEDULED'' ''Serie A'' JNull JNull,
      fixture (team ''Paris Saint-Germain'') (team ''Marseille'')
        ''2025-02-02T12:00:00.000002'' ''SCHEDULED'' ''Ligue 1'' JNull JNull]"

section \<open>Filtering and sorting competitions\<close>

text \<open>\<^verbatim>\<open>a in b\<close> for two strings: \<open>a\<close> occurs in \<open>b\<close> as a contiguous piece.\<close>

fun py_in :: "string \<Rightarrow> string \<Rightarrow> bool" where
  "py_in a [] = (a = [])"
| "py_in a (c # cs) = (prefix a (c # cs) \<or> py_in a cs)"

text \<open>
  \<^verbatim>\<open>x.lower()\<close>: only a string has the method. What it does to a string follows the
  Unicode tables, which are not part of the program: the functions below take it as the
  parameter \<open>lower\<close>. \<open>ascii_lower\<close> is what it does to ASCII text.
\<close>

fun str_lower :: "(string \<Rightarrow> string) \<Rightarrow> json \<Rightarrow> error + string" where
  "str_lower lower (JStr s) = Inr (lower s)"
| "str_lower lower _ = Inl AttributeError"

definition ascii_lower_char :: "char \<Rightarrow> char" where
  "ascii_lower_char c =
     (case map_of (zip ''ABCDEFGHIJKLMNOPQRSTUVWXYZ'' ''abcdefghijklmnopqrstuvwxyz'') c of
        Some d \<Rightarrow> d
      | None \<Rightarrow> c)"

definition ascii_lower :: "string \<Rightarrow> string" where
  "ascii_lower s = map ascii_lower_char s"

text \<open>\<^verbatim>\<open>for x in v\<close>: a list gives its elements, a dict its keys, a string its
  characters; nothing else can be iterated.\<close>

fun py_iter :: "json \<Rightarrow> error + json list" where
  "py_iter (JArr xs) = Inr xs"
| "py_iter (JObj kvs) = Inr (map (\<lambda>kv. JStr (fst kv)) kvs)"
| "py_iter (JStr s) = Inr (map JStr (chars s))"
| "py_iter _ = Inl TypeError"

text \<open>A list comprehension \<^verbatim>\<open>[x for x in xs if p(x)]\<close> whose condition may raise.\<close>

fun filter_err :: "('a \<Rightarrow> error + bool) \<Rightarrow> 'a list \<Rightarrow> error + 'a list" where
  "filter_err p [] = Inr []"
| "filter_err p (x # xs) =
     (case p x of
        Inl e \<Rightarrow> Inl e
      | Inr b \<Rightarrow>
          (case filter_err p xs of
             Inl e \<Rightarrow> Inl e
           | Inr ys \<Rightarrow> Inr (if b then x # ys else ys)))"

fun map_err :: "('a \<Rightarrow> error + 'b) \<Rightarrow> 'a list \<Rightarrow> error + 'b list" where
  "map_err f [] = Inr []"
| "map_err f (x # xs) =
     (case f x of
        Inl e \<Rightarrow> Inl e
      | Inr y \<Rightarrow>
          (case map_err f xs of
             Inl e \<Rightarrow> Inl e
           | Inr ys \<Rightarrow> Inr (y # ys)))"

text \<open>The condition of lines 239 and 240; \<open>q\<close> is the lowered search term. The code
  is read only when the name does not match.\<close>

definition search_matches :: "(string \<Rightarrow> string) \<Rightarrow> string \<Rightarrow> json \<Rightarrow> error + bool" where
  "search_matches lower q item =
     (case py_get item ''name'' (JStr []) of
        Inl e \<Rightarrow> Inl e
      | Inr n \<Rightarrow>
          (case str_lower lower n of
             Inl e \<Rightarrow> Inl e
           | Inr low \<Rightarrow>
               if py_in q low then Inr True
               else
                 (case py_get item ''code'' (JStr []) of
                    Inl e \<Rightarrow> Inl e
                  | Inr c \<Rightarrow>
                      (case str_lower lower c of
                         Inl e \<Rightarrow> Inl e
                       | Inr lowc \<Rightarrow> Inr (py_in q lowc)))))"

text \<open>Lines 237 to 240: the search filter, skipped for an empty term.\<close>

definition filter_by_search :: "(string \<Rightarrow> string) \<Rightarrow> string \<Rightarrow> json \<Rightarrow> error + json" where
  "filter_by_search lower search_query competitions =
     (if search_query \<noteq> [] then
        (case py_iter competitions of
           Inl e \<Rightarrow> Inl e
         | Inr xs \<Rightarrow>
             (case filter_err (search_matches lower search_query) xs of
                Inl e \<Rightarrow> Inl e
              | Inr ys \<Rightarrow> Inr (JArr ys)))
      else Inr competitions)"

text \<open>The key \<^verbatim>\<open>x.get('area', {}).get('name', '')\<close>.\<close>

definition area_name :: "json \<Rightarrow> error + json" where
  "area_name item =
     (case py_get item ''area'' (JObj []) of
        Inl e \<Rightarrow> Inl e
      | Inr a \<Rightarrow> py_get a ''name'' (JStr []))"

text \<open>The condition of line 245.\<close>

definition country_matches :: "(string \<Rightarrow> string) \<Rightarrow> string \<Rightarrow> json \<Rightarrow> error + bool" where
  "country_matches lower filter_country item =
     (case area_name item of
        Inl e \<Rightarrow> Inl e
      | Inr n \<Rightarrow>
          (case str_lower lower n of
             Inl e \<Rightarrow> Inl e
           | Inr low \<Rightarrow> Inr (low = lower filter_country)))"

text \<open>Lines 243 to 245: the country filter, skipped for an empty country.\<close>

definition filter_by_country :: "(string \<Rightarrow> string) \<Rightarrow> string \<Rightarrow> json \<Rightarrow> error + json" where
  "filter_by_country lower filter_country competitions =
     (if filter_country \<noteq> [] then
        (case py_iter competitions of
           Inl e \<Rightarrow> Inl e
         | Inr xs \<Rightarrow>
             (case filter_err (country_matches lower filter_country) xs of
                Inl e \<Rightarrow> Inl e
              | Inr ys \<Rightarrow> Inr (JArr ys)))
      else Inr competitions)"

subsection \<open>Sorting\<close>

text \<open>The value of a number; \<^verbatim>\<open>True\<close> and \<^verbatim>\<open>False\<close> are the numbers 1 and 0.\<close>

fun num_of :: "json \<Rightarrow> real option" where
  "num_of (JInt i) = Some (real_of_int i)"
| "num_of (JFloat r) = Some r"
| "num_of (JBool b) = Some (if b then 1 else 0)"
| "num_of _ = None"

text \<open>Python's \<^verbatim>\<open>==\<close>: numbers by value, strings and \<^verbatim>\<open>None\<close> as they are, lists item
  by item, dicts key by key whatever the order of their items.\<close>

fun py_equal :: "json \<Rightarrow> json \<Rightarrow> bool" where
  "py_equal (JArr (x # xs)) (JArr (y # ys)) = (py_equal x y \<and> py_equal (JArr xs) (JArr ys))"
| "py_equal (JArr []) (JArr []) = True"
| "py_equal (JArr xs) (JArr ys) = False"
| "py_equal (JObj ((k, v) # a)) (JObj b) =
     (case map_of b k of
        None \<Rightarrow> False
      | Some v' \<Rightarrow> py_equal v v' \<and> py_equal (JObj a) (JObj (filter (\<lambda>kv. fst kv \<noteq> k) b)))"
| "py_equal (JObj []) (JObj b) = (b = [])"
| "py_equal a b =
     (case (num_of a, num_of b) of
        (Some x, Some y) \<Rightarrow> x = y
      | (None, None) \<Rightarrow> a = b
      | _ \<Rightarrow> False)"

text \<open>
  Python's \<^verbatim>\<open><\<close>, \<open>None\<close> where it raises \<^verbatim>\<open>TypeError\<close>. Numbers compare by value
  and strings by code points. Two lists compare by their first pair of unequal items, or
  by length when one is the beginning of the other. Nothing else can be ordered: not a
  number with a string, not two \<^verbatim>\<open>None\<close>, not two dicts.
\<close>

fun py_lt :: "json \<Rightarrow> json \<Rightarrow> bool option" where
  "py_lt (JArr (x # xs)) (JArr (y # ys)) =
     (if py_equal x y then py_lt (JArr xs) (JArr ys) else py_lt x y)"
| "py_lt (JArr []) (JArr (y # ys)) = Some True"
| "py_lt (JArr xs) (JArr []) = Some False"
| "py_lt (JStr s) (JStr t) = Some (s < t)"
| "py_lt a b =
     (case (num_of a, num_of b) of
        (Some x, Some y) \<Rightarrow> Some (x < y)
      | _ \<Rightarrow> None)"

definition all_comparable :: "json list \<Rightarrow> bool" where
  "all_comparable ks = list_all (\<lambda>a. list_all (\<lambda>b. py_lt a b \<noteq> None) ks) ks"

text \<open>\<open>a\<close> may stand before \<open>b\<close>: \<open>b\<close> is not less than \<open>a\<close>.\<close>

definition not_after :: "json \<Rightarrow> json \<Rightarrow> bool" where
  "not_after a b \<longleftrightarrow> py_lt b a \<noteq> Some True"

text \<open>Stable insertion sort by a comparison: an item is put before the first item it
  may stand before, the items taken from the right.\<close>

fun insort_by :: "('a \<Rightarrow> 'a \<Rightarrow> bool) \<Rightarrow> 'a \<Rightarrow> 'a list \<Rightarrow> 'a list" where
  "insort_by le x [] = [x]"
| "insort_by le x (y # ys) = (if le x y then x # y # ys else y # insort_by le x ys)"

definition stable_sort :: "('a \<Rightarrow> 'a \<Rightarrow> bool) \<Rightarrow> 'a list \<Rightarrow> 'a list" where
  "stable_sort le xs = foldr (insort_by le) xs []"

text \<open>
  Python's stable sort of items paired with their keys. Up to one item there is nothing
  to compare. When every two keys can be compared, the result is the one stable
  arrangement in the order of the keys. Otherwise the sort raises \<^verbatim>\<open>TypeError\<close>: two
  keys that cannot be compared have no key between them, so they would be neighbours in
  the result and every sort has to compare them.
\<close>

definition py_sort_pairs :: "(json \<times> 'a) list \<Rightarrow> error + 'a list" where
  "py_sort_pairs kxs =
     (if length kxs \<le> 1 then Inr (map snd kxs)
      else if all_comparable (map fst kxs)
        then Inr (map snd (stable_sort (\<lambda>p q. not_after (fst p) (fst q)) kxs))
      else Inl TypeError)"

text \<open>\<^verbatim>\<open>xs.sort(key=f)\<close>: only a list has the method; the keys are computed first.\<close>

definition py_sort_by :: "(json \<Rightarrow> error + json) \<Rightarrow> json \<Rightarrow> error + json list" where
  "py_sort_by f v =
     (case v of
        JArr xs \<Rightarrow>
          (case map_err f xs of
             Inl e \<Rightarrow> Inl e
           | Inr ks \<Rightarrow> py_sort_pairs (zip ks xs))
      | _ \<Rightarrow> Inl AttributeError)"

definition name_key :: "json \<Rightarrow> error + json" where
  "name_key item = py_get item ''name'' (JStr [])"

text \<open>Lines 248 to 251. \<open>None\<close>: the list is not sorted, as for any other value of
  \<^verbatim>\<open>sort_by\<close>.\<close>

definition sort_competitions :: "string \<Rightarrow> json \<Rightarrow> error + json list option" where
  "sort_competitions sort_by competitions =
     (if sort_by = ''name'' then
        (case py_sort_by name_key competitions of Inl e \<Rightarrow> Inl e | Inr ys \<Rightarrow> Inr (Some ys))
      else if sort_by = ''country'' then
        (case py_sort_by area_name competitions of Inl e \<Rightarrow> Inl e | Inr ys \<Rightarrow> Inr (Some ys))
      else Inr None)"

text \<open>What a well-formed competition record holds: an object whose name, code and area
  name, where present, are strings.\<close>

definition text_field :: "(string \<times> json) list \<Rightarrow> string \<Rightarrow> string option" where
  "text_field kvs k =
     (case map_of kvs k of
        None \<Rightarrow> Some []
      | Some (JStr s) \<Rightarrow> Some s
      | Some _ \<Rightarrow> None)"

fun competition_fields :: "json \<Rightarrow> (string \<times> string \<times> string) option" where
  "competition_fields (JObj kvs) =
     (case (text_field kvs ''name'', text_field kvs ''code'',
            (case map_of kvs ''area'' of
               None \<Rightarrow> Some []
             | Some (JObj a) \<Rightarrow> text_field a ''name''
             | Some _ \<Rightarrow> None)) of
        (Some n, Some c, Some a) \<Rightarrow> Some (n, c, a)
      | _ \<Rightarrow> None)"
| "competition_fields _ = None"

definition well_formed :: "json \<Rightarrow> bool" where
  "well_formed item \<longleftrightarrow> competition_fields item \<noteq> None"

definition comp_name :: "json \<Rightarrow> string" where
  "comp_name item = (case competition_fields item of Some (n, c, a) \<Rightarrow> n | None \<Rightarrow> [])"

definition comp_code :: "json \<Rightarrow> string" where
  "comp_code item = (case competition_fields item of Some (n, c, a) \<Rightarrow> c | None \<Rightarrow> [])"

definition comp_area :: "json \<Rightarrow> string" where
  "comp_area item = (case competition_fields item of Some (n, c, a) \<Rightarrow> a | None \<Rightarrow> [])"

section \<open>Formatting match times\<close>

text \<open>\<^verbatim>\<open>s.replace('Z', '+00:00')\<close>: every \<^verbatim>\<open>Z\<close> is replaced; only a string has the
  method.\<close>

fun replace_Z :: "string \<Rightarrow> string" where
  "replace_Z [] = []"
| "replace_Z (c # cs) = (if c = CHR ''Z'' then ''+00:00'' @ replace_Z cs else c # replace_Z cs)"

fun py_replace_Z :: "json \<Rightarrow> error + string" where
  "py_replace_Z (JStr s) = Inr (replace_Z s)"
| "py_replace_Z _ = Inl AttributeError"

subsection \<open>Parsing\<close>

text \<open>
  \<^verbatim>\<open>datetime.fromisoformat\<close> belongs to the standard library, and what it reads has
  grown with the versions of Python. Every version since 3.7 reads the format that
  \<^verbatim>\<open>isoformat()\<close> writes, \<^verbatim>\<open>YYYY-MM-DD[*HH[:MM[:SS[.fff[fff]]]][+HH:MM[:SS[.ffffff]]]]\<close>
  where \<^verbatim>\<open>*\<close> is any single character, and then applies the range checks of the
  \<^verbatim>\<open>datetime\<close> and \<^verbatim>\<open>timezone\<close> constructors; this is modelled here. What
  happens to a string outside this format, and to an hour field of 24, depends on the
  version and is left to \<open>other_forms\<close>.
\<close>

definition digit_val :: "char \<Rightarrow> nat option" where
  "digit_val c = map_of (zip ''0123456789'' [0, 1, 2, 3, 4, 5, 6, 7, 8, 9]) c"

fun number_from :: "nat \<Rightarrow> string \<Rightarrow> nat option" where
  "number_from acc [] = Some acc"
| "number_from acc (c # cs) =
     (case digit_val c of None \<Rightarrow> None | Some d \<Rightarrow> number_from (10 * acc + d) cs)"

definition number :: "string \<Rightarrow> nat option" where
  "number s = (if s = [] then None else number_from 0 s)"

definition parse_date :: "string \<Rightarrow> (nat \<times> nat \<times> nat) option" where
  "parse_date s =
     (if length s = 10 \<and> s ! 4 = CHR ''-'' \<and> s ! 7 = CHR ''-'' then
        (case (number (take 4 s), number (take 2 (drop 5 s)), number (drop 8 s)) of
           (Some y, Some m, Some d) \<Rightarrow> Some (y, m, d)
         | _ \<Rightarrow> None)
      else None)"

text \<open>\<^verbatim>\<open>HH[:MM[:SS[.fff[fff]]]]\<close>, to hours, minutes, seconds and microseconds.\<close>

definition parse_hh_mm_ss_ff :: "string \<Rightarrow> (nat \<times> nat \<times> nat \<times> nat) option" where
  "parse_hh_mm_ss_ff s =
     (if length s = 2 then
        (case number s of Some h \<Rightarrow> Some (h, 0, 0, 0) | None \<Rightarrow> None)
      else if length s = 5 \<and> s ! 2 = CHR '':'' then
        (case (number (take 2 s), number (drop 3 s)) of
           (Some h, Some m) \<Rightarrow> Some (h, m, 0, 0)
         | _ \<Rightarrow> None)
      else if length s = 8 \<and> s ! 2 = CHR '':'' \<and> s ! 5 = CHR '':'' then
        (case (number (take 2 s), number (take 2 (drop 3 s)), number (drop 6 s)) of
           (Some h, Some m, Some sec) \<Rightarrow> Some (h, m, sec, 0)
         | _ \<Rightarrow> None)
      else if (length s = 12 \<or> length s = 15)
              \<and> s ! 2 = CHR '':'' \<and> s ! 5 = CHR '':'' \<and> s ! 8 = CHR ''.'' then
        (case (number (take 2 s), number (take 2 (drop 3 s)), number (take 2 (drop 6 s)),
               number (drop 9 s)) of
           (Some h, Some m, Some sec, Some f) \<Rightarrow>
             Some (h, m, sec, if length s = 12 then f * 1000 else f)
         | _ \<Rightarrow> None)
      else None)"

definition is_sign :: "char \<Rightarrow> bool" where
  "is_sign c \<longleftrightarrow> c = CHR ''+'' \<or> c = CHR ''-''"

text \<open>The time of day and the offset, which starts at the first sign character and has
  one of the three lengths of \<^verbatim>\<open>HH:MM\<close>, \<^verbatim>\<open>HH:MM:SS\<close> and \<^verbatim>\<open>HH:MM:SS.ffffff\<close>.\<close>

definition parse_time :: "string \<Rightarrow> ((nat \<times> nat \<times> nat \<times> nat) \<times> int option) option" where
  "parse_time t =
     (case parse_hh_mm_ss_ff (takeWhile (\<lambda>c. \<not> is_sign c) t) of
        None \<Rightarrow> None
      | Some hmsf \<Rightarrow>
          (case dropWhile (\<lambda>c. \<not> is_sign c) t of
             [] \<Rightarrow> Some (hmsf, None)
           | sign # tz \<Rightarrow>
               if length tz = 5 \<or> length tz = 8 \<or> length tz = 15 then
                 (case parse_hh_mm_ss_ff tz of
                    None \<Rightarrow> None
                  | Some (h, m, sec, f) \<Rightarrow>
                      Some (hmsf,
                            Some ((if sign = CHR ''-'' then - 1 else 1)
                                  * (((int h * 60 + int m) * 60 + int sec) * 1000000 + int f))))
               else None))"

text \<open>The constructors' checks: a date of the calendar, a time of day, and an offset
  strictly between minus and plus 24 hours.\<close>

definition make_datetime ::
  "nat \<times> nat \<times> nat \<Rightarrow> nat \<times> nat \<times> nat \<times> nat \<Rightarrow> int option \<Rightarrow> error + datetime" where
  "make_datetime ymd hmsf tz =
     (case ymd of (y, m, d) \<Rightarrow>
      case hmsf of (h, mi, sec, f) \<Rightarrow>
        if 1 \<le> y \<and> y \<le> 9999 \<and> 1 \<le> m \<and> m \<le> 12 \<and> 1 \<le> d \<and> d \<le> days_in_month y m
           \<and> h \<le> 23 \<and> mi \<le> 59 \<and> sec \<le> 59 \<and> f \<le> 999999
           \<and> (case tz of None \<Rightarrow> True | Some off \<Rightarrow> - DAY_US < off \<and> off < DAY_US)
        then Inr \<lparr>year = y, month = m, day = d, hour = h, minute = mi, second = sec,
                  microsecond = f, utcoffset = tz\<rparr>
        else Inl ValueError)"

text \<open>A string of the format, to its date, time of day and offset.\<close>

definition parse_isoformat ::
  "string \<Rightarrow> ((nat \<times> nat \<times> nat) \<times> (nat \<times> nat \<times> nat \<times> nat) \<times> int option) option" where
  "parse_isoformat s =
     (case parse_date (take 10 s) of
        None \<Rightarrow> None
      | Some ymd \<Rightarrow>
          (case drop 10 s of
             [] \<Rightarrow> Some (ymd, (0, 0, 0, 0), None)
           | sep # rest \<Rightarrow>
               (case parse_time (drop (utf8_length sep - 1) rest) of
                  None \<Rightarrow> None
                | Some (hmsf, tz) \<Rightarrow> Some (ymd, hmsf, tz))))"

definition fromisoformat :: "(string \<Rightarrow> error + datetime) \<Rightarrow> string \<Rightarrow> error + datetime" where
  "fromisoformat other s =
     (case parse_isoformat s of
        None \<Rightarrow> other s
      | Some (ymd, hmsf, tz) \<Rightarrow>
          if fst hmsf = 24 then other s else make_datetime ymd hmsf tz)"

subsection \<open>The two formatters\<close>

text \<open>The \<^verbatim>\<open>try\<close> block of \<^verbatim>\<open>format_match_time\<close>, lines 167 and 168, and the function
  with its bare \<^verbatim>\<open>except\<close>.\<close>

definition match_time_try :: "env \<Rightarrow> json \<Rightarrow> error + string" where
  "match_time_try e utc_date_str =
     (case py_replace_Z utc_date_str of
        Inl x \<Rightarrow> Inl x
      | Inr s \<Rightarrow>
          (case fromisoformat (other_forms e) s of
             Inl x \<Rightarrow> Inl x
           | Inr utc_time \<Rightarrow> Inr (strftime_HM utc_time)))"

definition format_match_time :: "env \<Rightarrow> json \<Rightarrow> error + string" where
  "format_match_time e utc_date_str =
     (case match_time_try e utc_date_str of
        Inl x \<Rightarrow> Inr ''TBD''
      | Inr s \<Rightarrow> Inr s)"

text \<open>\<^verbatim>\<open>format_upcoming_date\<close>, lines 174 to 178, in the same way.\<close>

definition upcoming_date_try :: "env \<Rightarrow> json \<Rightarrow> error + string" where
  "upcoming_date_try e utc_date_str =
     (case py_replace_Z utc_date_str of
        Inl x \<Rightarrow> Inl x
      | Inr s \<Rightarrow>
          (case fromisoformat (other_forms e) s of
             Inl x \<Rightarrow> Inl x
           | Inr utc_time \<Rightarrow> Inr (strftime_BdY (pads_year e) utc_time)))"

definition format_upcoming_date :: "env \<Rightarrow> json \<Rightarrow> error + string" where
  "format_upcoming_date e utc_date_str =
     (case upcoming_date_try e utc_date_str of
        Inl x \<Rightarrow> Inr ''Date TBD''
      | Inr s \<Rightarrow> Inr s)"


section \<open>The route handler\<close>

text \<open>\<^verbatim>\<open>get_match_status_display\<close>: the lookup hashes its argument, which a list or a
  dict does not allow; a status that is not a key of the table is returned as it is.\<close>

definition status_map :: "(string \<times> string) list" where
  "status_map =
     [(''SCHEDULED'', '' Scheduled''), (''IN_PLAY'', '' LIVE''), (''PAUSED'', '' Half Time''),
      (''FINISHED'', '' Finished''), (''POSTPONED'', '' Postponed''),
      (''CANCELLED'', '' Cancelled'')]"

fun get_match_status_display :: "json \<Rightarrow> error + json" where
  "get_match_status_display (JStr s) =
     Inr (case map_of status_map s of Some d \<Rightarrow> JStr d | None \<Rightarrow> JStr s)"
| "get_match_status_display (JArr xs) = Inl TypeError"
| "get_match_status_display (JObj kvs) = Inl TypeError"
| "get_match_status_display v = Inr v"

text \<open>\<^verbatim>\<open>m.get(k1, {}).get(k2, d)\<close> and the three step chain that reads a score.\<close>

definition py_get2 :: "json \<Rightarrow> string \<Rightarrow> string \<Rightarrow> json \<Rightarrow> error + json" where
  "py_get2 m k1 k2 d =
     (case py_get m k1 (JObj []) of Inl x \<Rightarrow> Inl x | Inr a \<Rightarrow> py_get a k2 d)"

definition py_get3 :: "json \<Rightarrow> string \<Rightarrow> string \<Rightarrow> string \<Rightarrow> json \<Rightarrow> error + json" where
  "py_get3 m k1 k2 k3 d =
     (case py_get m k1 (JObj []) of
        Inl x \<Rightarrow> Inl x
      | Inr a \<Rightarrow>
          (case py_get a k2 (JObj []) of Inl x \<Rightarrow> Inl x | Inr b \<Rightarrow> py_get b k3 d))"

text \<open>A dict display: the values are computed in order, the first exception ends it.\<close>

fun build_dict :: "(string \<times> (error + json)) list \<Rightarrow> error + json" where
  "build_dict [] = Inr (JObj [])"
| "build_dict ((k, v) # kvs) =
     (case v of
        Inl x \<Rightarrow> Inl x
      | Inr a \<Rightarrow>
          (case build_dict kvs of
             Inr (JObj rest) \<Rightarrow> Inr (JObj ((k, a) # rest))
           | Inr other \<Rightarrow> Inr other
           | Inl x \<Rightarrow> Inl x))"

definition formatted :: "error + string \<Rightarrow> error + json" where
  "formatted r = (case r of Inl x \<Rightarrow> Inl x | Inr s \<Rightarrow> Inr (JStr s))"

text \<open>Lines 212 to 221.\<close>

definition process_live :: "env \<Rightarrow> json \<Rightarrow> error + json" where
  "process_live e m =
     build_dict
       [(''homeTeam'', py_get2 m ''homeTeam'' ''name'' (JStr ''Unknown'')),
        (''awayTeam'', py_get2 m ''awayTeam'' ''name'' (JStr ''Unknown'')),
        (''homeScore'', py_get3 m ''score'' ''fullTime'' ''home'' JNull),
        (''awayScore'', py_get3 m ''score'' ''fullTime'' ''away'' JNull),
        (''status'',
           (case py_get m ''status'' (JStr ''UNKNOWN'') of
              Inl x \<Rightarrow> Inl x
            | Inr s \<Rightarrow> get_match_status_display s)),
        (''competition'', py_get2 m ''competition'' ''name'' (JStr ''Unknown'')),
        (''time'',
           (case py_get m ''utcDate'' (JStr []) of
              Inl x \<Rightarrow> Inl x
            | Inr d \<Rightarrow> formatted (format_match_time e d))),
        (''is_live'',
           (case py_get m ''status'' JNull of
              Inl x \<Rightarrow> Inl x
            | Inr s \<Rightarrow> Inr (JBool (s = JStr ''IN_PLAY''))))]"

text \<open>Lines 227 to 233.\<close>

definition process_upcoming :: "env \<Rightarrow> json \<Rightarrow> error + json" where
  "process_upcoming e m =
     build_dict
       [(''homeTeam'', py_get2 m ''homeTeam'' ''name'' (JStr ''Unknown'')),
        (''awayTeam'', py_get2 m ''awayTeam'' ''name'' (JStr ''Unknown'')),
        (''competition'', py_get2 m ''competition'' ''name'' (JStr ''Unknown'')),
        (''date'',
           (case py_get m ''utcDate'' (JStr []) of
              Inl x \<Rightarrow> Inl x
            | Inr d \<Rightarrow> formatted (format_upcoming_date e d))),
        (''time'',
           (case py_get m ''utcDate'' (JStr []) of
              Inl x \<Rightarrow> Inl x
            | Inr d \<Rightarrow> formatted (format_match_time e d)))]"

text \<open>The two loops of lines 211 and 226.\<close>

definition process_all :: "(json \<Rightarrow> error + json) \<Rightarrow> json \<Rightarrow> error + json list" where
  "process_all f ms = (case py_iter ms of Inl x \<Rightarrow> Inl x | Inr xs \<Rightarrow> map_err f xs)"

text \<open>
  Lines 255 to 257: the area names that count as true, made a set, listed and sorted.
  A set takes hashable members only (no list, no dict) and keeps the first of several
  equal members; numbers are equal by value.
\<close>

definition area_if_named :: "json \<Rightarrow> error + json list" where
  "area_if_named item =
     (case py_get2 item ''area'' ''name'' JNull of
        Inl x \<Rightarrow> Inl x
      | Inr c \<Rightarrow>
          if truthy c then
            (case py_get2 item ''area'' ''name'' (JStr []) of
               Inl x \<Rightarrow> Inl x
             | Inr n \<Rightarrow> Inr [n])
          else Inr [])"

fun hashable :: "json \<Rightarrow> bool" where
  "hashable (JArr xs) = False"
| "hashable (JObj kvs) = False"
| "hashable v = True"

fun first_of_equals :: "json list \<Rightarrow> json list" where
  "first_of_equals [] = []"
| "first_of_equals (x # xs) = x # first_of_equals (filter (\<lambda>y. \<not> py_equal x y) xs)"

definition sorted_set :: "json list \<Rightarrow> error + json list" where
  "sorted_set xs =
     (if list_all hashable xs
      then py_sort_pairs (map (\<lambda>x. (x, x)) (first_of_equals xs))
      else Inl TypeError)"

definition countries_of :: "json \<Rightarrow> error + json list" where
  "countries_of all_competitions =
     (case py_iter all_competitions of
        Inl x \<Rightarrow> Inl x
      | Inr items \<Rightarrow>
          (case map_err area_if_named items of
             Inl x \<Rightarrow> Inl x
           | Inr names \<Rightarrow> sorted_set (concat names)))"

text \<open>The query string, the keyword arguments of \<^verbatim>\<open>render_template\<close> (\<open>None\<close> for
  one that is not passed), and what the outside supplies during one request: the clock
  readings, the state of the network at each of the four remote calls, and the order
  \<open>interrupted\<close> in which \<^verbatim>\<open>list.sort\<close> leaves a list when a comparison raises, some
  rearrangement of the items that depends on how far the library's algorithm got.\<close>

record query =
  search_arg :: "string option"
  sort_arg :: "string option"
  country_arg :: "string option"

record page =
  ctx_competitions :: json
  ctx_countries :: json
  ctx_current_search :: string
  ctx_current_sort :: string
  ctx_current_country :: string
  ctx_status_message :: "string option"
  ctx_error_message :: "string option"
  ctx_live_matches :: "json option"
  ctx_upcoming_matches :: "json option"

record outside =
  t_first :: real
  t_second :: real
  live_now :: datetime
  upcoming_clock :: "nat \<Rightarrow> datetime"
  net_first :: network
  net_live :: network
  net_upcoming :: network
  net_second :: network
  interrupted :: "json list \<Rightarrow> json list"

definition arg_or :: "string option \<Rightarrow> string \<Rightarrow> string" where
  "arg_or a d = (case a of None \<Rightarrow> d | Some s \<Rightarrow> s)"

text \<open>
  The local variables of \<^verbatim>\<open>home\<close> after lines 201 to 207. \<open>matches_fallback\<close> and
  \<open>upcoming_fallback\<close> are bound there and not read again.
\<close>

record locals =
  competitions :: json
  using_fallback :: bool
  live_matches :: json
  matches_fallback :: bool
  upcoming_matches :: json
  upcoming_fallback :: bool

text \<open>Lines 201 to 207: the three fetches.\<close>

definition home_fetch :: "env \<Rightarrow> outside \<Rightarrow> world \<Rightarrow> (error + locals) \<times> world" where
  "home_fetch e out w0 =
     (case get_competitions_data e (net_first out) (t_first out) w0 of
        (Inl x, w1) \<Rightarrow> (Inl x, w1)
      | (Inr r1, w1) \<Rightarrow>
          (case get_live_matches e (net_live out) (live_now out) w1 of
             (Inl x, w2) \<Rightarrow> (Inl x, w2)
           | (Inr r2, w2) \<Rightarrow>
               (case get_upcoming_matches e (net_upcoming out) (upcoming_clock out) w2 of
                  (Inl x, w3) \<Rightarrow> (Inl x, w3)
                | (Inr r3, w3) \<Rightarrow>
                    (Inr \<lparr>competitions = fst r1, using_fallback = snd r1,
                          live_matches = fst r2, matches_fallback = snd r2,
                          upcoming_matches = fst r3, upcoming_fallback = snd r3\<rparr>,
                     w3))))"

text \<open>Lines 210 to 245: the two processed lists and the filtered competitions.\<close>

definition home_prepare ::
  "(string \<Rightarrow> string) \<Rightarrow> env \<Rightarrow> string \<Rightarrow> string \<Rightarrow> locals
     \<Rightarrow> error + json list \<times> json list \<times> json" where
  "home_prepare lower e search_query filter_country l =
     (case process_all (process_live e) (live_matches l) of
        Inl x \<Rightarrow> Inl x
      | Inr processed_matches \<Rightarrow>
          (case process_all (process_upcoming e) (upcoming_matches l) of
             Inl x \<Rightarrow> Inl x
           | Inr processed_upcoming \<Rightarrow>
               (case filter_by_search lower search_query (competitions l) of
                  Inl x \<Rightarrow> Inl x
                | Inr searched \<Rightarrow>
                    (case filter_by_country lower filter_country searched of
                       Inl x \<Rightarrow> Inl x
                     | Inr filtered \<Rightarrow>
                         Inr (processed_matches, processed_upcoming, filtered)))))"

text \<open>
  Lines 248 to 251. \<^verbatim>\<open>competitions.sort\<close> sorts in place: when no filter has built a
  new list (\<open>same_list\<close>), the list sorted is the cached one or
  \<^verbatim>\<open>FALLBACK_COMPETITIONS\<close> itself, and the state changes with it. A sort that raises
  while it computes the keys has not touched the list; one that raises in a comparison
  (\<^verbatim>\<open>TypeError\<close>) leaves the list in the order \<open>left\<close> gives.
\<close>

definition put_back :: "bool \<Rightarrow> json list \<Rightarrow> world \<Rightarrow> world" where
  "put_back from_fallback ys w =
     (if from_fallback then w\<lparr>fallback_competitions := ys\<rparr> else w\<lparr>cache_data := JArr ys\<rparr>)"

definition sort_in_place ::
  "string \<Rightarrow> bool \<Rightarrow> bool \<Rightarrow> (json list \<Rightarrow> json list) \<Rightarrow> json \<Rightarrow> world
     \<Rightarrow> (error + json) \<times> world" where
  "sort_in_place sort_by same_list from_fallback left filtered w =
     (case sort_competitions sort_by filtered of
        Inl x \<Rightarrow>
          (Inl x,
           if x = TypeError \<and> same_list then
             (case filtered of JArr xs \<Rightarrow> put_back from_fallback (left xs) w | _ \<Rightarrow> w)
           else w)
      | Inr None \<Rightarrow> (Inr filtered, w)
      | Inr (Some ys) \<Rightarrow>
          (Inr (JArr ys), if same_list then put_back from_fallback ys w else w))"

text \<open>Lines 254 to 257: the second fetch and the list of countries.\<close>

definition home_countries :: "env \<Rightarrow> outside \<Rightarrow> world \<Rightarrow> (error + json list) \<times> world" where
  "home_countries e out w =
     (case get_competitions_data e (net_second out) (t_second out) w of
        (Inl x, w') \<Rightarrow> (Inl x, w')
      | (Inr r, w') \<Rightarrow> (countries_of (fst r), w'))"

text \<open>The \<^verbatim>\<open>try\<close> block of \<^verbatim>\<open>home\<close>, lines 196 to 272.\<close>

definition home_try ::
  "(string \<Rightarrow> string) \<Rightarrow> env \<Rightarrow> outside \<Rightarrow> query \<Rightarrow> world \<Rightarrow> (error + page) \<times> world" where
  "home_try lower e out q w0 =
     (let search_query = lower (arg_or (search_arg q) []);
          sort_by = arg_or (sort_arg q) ''name'';
          filter_country = arg_or (country_arg q) []
      in
      case home_fetch e out w0 of
        (Inl x, w3) \<Rightarrow> (Inl x, w3)
      | (Inr l, w3) \<Rightarrow>
          (case home_prepare lower e search_query filter_country l of
             Inl x \<Rightarrow> (Inl x, w3)
           | Inr (processed_matches, processed_upcoming, filtered) \<Rightarrow>
               (case sort_in_place sort_by (search_query = [] \<and> filter_country = [])
                       (using_fallback l) (interrupted out) filtered w3 of
                  (Inl x, w4) \<Rightarrow> (Inl x, w4)
                | (Inr shown, w4) \<Rightarrow>
                    (case home_countries e out w4 of
                       (Inl x, w5) \<Rightarrow> (Inl x, w5)
                     | (Inr countries, w5) \<Rightarrow>
                         (Inr \<lparr>ctx_competitions = shown,
                               ctx_countries = JArr countries,
                               ctx_current_search = arg_or (search_arg q) [],
                               ctx_current_sort = sort_by,
                               ctx_current_country = filter_country,
                               ctx_status_message =
                                 (if using_fallback l
                                  then Some '' Using sample data - Live API data will load when available.''
                                  else None),
                               ctx_error_message = None,
                               ctx_live_matches = Some (JArr processed_matches),
                               ctx_upcoming_matches = Some (JArr processed_upcoming)\<rparr>,
                          w5)))))"

text \<open>\<^verbatim>\<open>home\<close> with its handler of lines 274 to 284: what is passed to the template,
  and the state after the request.\<close>

definition home ::
  "(string \<Rightarrow> string) \<Rightarrow> env \<Rightarrow> outside \<Rightarrow> query \<Rightarrow> world \<Rightarrow> page \<times> world" where
  "home lower e out q w0 =
     (case home_try lower e out q w0 of
        (Inr p, w') \<Rightarrow> (p, w')
      | (Inl x, w') \<Rightarrow>
          (\<lparr>ctx_competitions = JArr (take 5 (fallback_competitions w')),
            ctx_countries =
              JArr [JStr ''England'', JStr ''Spain'', JStr ''Germany'', JStr ''Italy'',
                    JStr ''France''],
            ctx_current_search = arg_or (search_arg q) [],
            ctx_current_sort = arg_or (sort_arg q) ''name'',
            ctx_current_country = arg_or (country_arg q) [],
            ctx_status_message = None,
            ctx_error_message = Some ''Unable to load data. Showing sample competitions.'',
            ctx_live_matches = None,
            ctx_upcoming_matches = None\<rparr>,
           w'))"

text \<open>Two requests that differ only in what the matches endpoint answers to the live
  query: it is down, or it returns the very matches of the fallback list.\<close>

definition plain_query :: query where
  "plain_query = \<lparr>search_arg = None, sort_arg = None, country_arg = None\<rparr>"

definition outside_live_down :: outside where
  "outside_live_down =
     \<lparr>t_first = 1000, t_second = 1001,
      live_now = example_import_time\<lparr>hour := 12\<rparr>,
      upcoming_clock = example_clock,
      net_first = net_const (Replied 200 (Inr (JObj [(''competitions'', two_competitions)]))),
      net_live = net_const (Failed RequestException),
      net_upcoming = net_const (Failed RequestException),
      net_second = net_const (Failed RequestException),
      interrupted = (\<lambda>xs. xs)\<rparr>"

definition outside_live_up :: outside where
  "outside_live_up =
     outside_live_down
       \<lparr>net_live :=
          net_const (Replied 200 (Inr (JObj [(''matches'', JArr example_FALLBACK_MATCHES)])))\<rparr>"

text \<open>What \<^verbatim>\<open>home\<close> passes to the template in both of these requests.\<close>

definition example_page :: page where
  "example_page =
     \<lparr>ctx_competitions =
        JArr [competition ''La Liga'' ''PD'' ''Spain'' ''TIER_ONE'',
              competition ''Serie A'' ''SA'' ''Italy'' ''TIER_ONE''],
      ctx_countries = JArr [JStr ''Italy'', JStr ''Spain''],
      ctx_current_search = [],
      ctx_current_sort = ''name'',
      ctx_current_country = [],
      ctx_status_message = None,
      ctx_error_message = None,
      ctx_live_matches =
        Some (JArr
          [JObj [(''homeTeam'', JStr ''Manchester United''), (''awayTeam'', JStr ''Liverpool''),
                 (''homeScore'', JNull), (''awayScore'', JNull),
                 (''status'', JStr '' Scheduled''), (''competition'', JStr ''Premier League''),
                 (''time'', JStr ''12:00''), (''is_live'', JBool False)],
           JObj [(''homeTeam'', JStr ''Barcelona''), (''awayTeam'', JStr ''Real Madrid''),
                 (''homeScore'', JInt 2), (''awayScore'', JInt 1),
                 (''status'', JStr '' LIVE''), (''competition'', JStr ''La Liga''),
                 (''time'', JStr ''10:00''), (''is_live'', JBool True)],
           JObj [(''homeTeam'', JStr ''Bayern Munich''), (''awayTeam'', JStr ''Borussia Dortmund''),
                 (''homeScore'', JInt 3), (''awayScore'', JInt 2),
                 (''status'', JStr '' Finished''), (''competition'', JStr ''Bundesliga''),
                 (''time'', JStr ''09:00''), (''is_live'', JBool False)]]),
      ctx_upcoming_matches =
        Some (JArr
          [JObj [(''homeTeam'', JStr ''Chelsea''), (''awayTeam'', JStr ''Arsenal''),
                 (''competition'', JStr ''Premier League''),
                 (''date'', JStr ''January 31, 2025''), (''time'', JStr ''12:00'')],
           JObj [(''homeTeam'', JStr ''AC Milan''), (''awayTeam'', JStr ''Inter Milan''),
                 (''competition'', JStr ''Serie A''),
                 (''date'', JStr ''February 01, 2025''), (''time'', JStr ''12:00'')],
           JObj [(''homeTeam'', JStr ''Paris Saint-Germain''), (''awayTeam'', JStr ''Marseille''),
                 (''competition'', JStr ''Ligue 1''),
                 (''date'', JStr ''February 02, 2025''), (''time'', JStr ''12:00'')]])\<rparr>"

text \<open>A request served from the cache: the competitions were fetched one second before,
  no credential is configured, so nothing is asked of the network.\<close>

definition cached_world :: world where
  "cached_world = initial_world\<lparr>cache_data := two_competitions, cache_timestamp := 1000\<rparr>"

definition outside_quiet :: outside where
  "outside_quiet = outside_live_down\<lparr>t_first := 1001, t_second := 1002\<rparr>"

section \<open>Properties of the fetch operations\<close>

lemma length_FALLBACK_COMPETITIONS: "length FALLBACK_COMPETITIONS = 13"
  by (simp add: FALLBACK_COMPETITIONS_def)

lemma fallback_intact_length: "fallback_intact w \<Longrightarrow> length (fallback_competitions w) = 13"
  using mset_eq_length [of "fallback_competitions w" FALLBACK_COMPETITIONS]
  by (simp add: fallback_intact_def length_FALLBACK_COMPETITIONS)

lemma fallback_intact_initial: "fallback_intact initial_world"
  by (simp add: fallback_intact_def initial_world_def)

text \<open>A string is sliced by characters, not by the bytes that encode them.\<close>

lemma py_take_characters:
  "py_take 2 (JStr [CHR 0xC3, CHR 0xA9, CHR ''t'', CHR 0xC3, CHR 0xA9])
     = Inr (JStr [CHR 0xC3, CHR 0xA9, CHR ''t''])"
  by (simp add: utf8_length_def)

lemma send_fields [simp]:
  "cache_data (send rq w) = cache_data w"
  "cache_timestamp (send rq w) = cache_timestamp w"
  "fallback_competitions (send rq w) = fallback_competitions w"
  "sent (send rq w) = sent w @ [rq]"
  by (simp_all add: send_def)

text \<open>
  Claim C1. When the cache cannot serve the call and the remote call raises, answers with
  a status other than 200, or answers 200 with a body that is not JSON or not an object,
  \<^verbatim>\<open>get_competitions_data\<close> returns (it does not raise) the fallback list with the
  flag true; that list has the thirteen static entries; the only change of the state is
  the logged request, so both cache fields keep their values.
\<close>

theorem competitions_failure_returns_fallback:
  assumes "fallback_intact w"
    and "\<not> cache_fresh w t"
    and "(\<exists>x. net (competitions_request e) = Failed x)
       \<or> (\<exists>st body. net (competitions_request e) = Replied st body \<and> st \<noteq> 200)
       \<or> (\<exists>x. net (competitions_request e) = Replied 200 (Inl x))
       \<or> (\<exists>data x. net (competitions_request e) = Replied 200 (Inr data)
             \<and> py_get data ''competitions'' (JArr []) = Inl x)"
  shows "get_competitions_data e net t w
           = (Inr (JArr (fallback_competitions w), True), send (competitions_request e) w)
       \<and> length (fallback_competitions w) = 13
       \<and> mset (fallback_competitions w) = mset FALLBACK_COMPETITIONS
       \<and> cache_data (snd (get_competitions_data e net t w)) = cache_data w
       \<and> cache_timestamp (snd (get_competitions_data e net t w)) = cache_timestamp w"
proof -
  have r: "get_competitions_data e net t w
           = (Inr (JArr (fallback_competitions w), True), send (competitions_request e) w)"
    using assms(2,3)
    by (auto simp: get_competitions_data_def competitions_try_def Let_def)
  show ?thesis
    using assms(1) fallback_intact_length [OF assms(1)]
    by (simp add: r fallback_intact_def)
qed

theorem competitions_failure_returns_fallback_witness:
  "fallback_intact initial_world
   \<and> \<not> cache_fresh initial_world 1000
   \<and> net_const (Replied 503 (Inl JSONDecodeError)) (competitions_request example_env)
       = Replied 503 (Inl JSONDecodeError)
   \<and> get_competitions_data example_env (net_const (Replied 503 (Inl JSONDecodeError))) 1000
       initial_world
       = (Inr (JArr FALLBACK_COMPETITIONS, True),
          send (competitions_request example_env) initial_world)
   \<and> cache_data (snd (get_competitions_data example_env
         (net_const (Replied 503 (Inl JSONDecodeError))) 1000 initial_world)) = JNull"
proof -
  have a: "fallback_intact initial_world"
    by (rule fallback_intact_initial)
  have b: "\<not> cache_fresh initial_world 1000"
    by (simp add: cache_fresh_def initial_world_def)
  have c: "net_const (Replied 503 (Inl JSONDecodeError)) (competitions_request example_env)
       = Replied 503 (Inl JSONDecodeError)"
    by (simp add: net_const_def)
  from competitions_failure_returns_fallback
         [of initial_world 1000 "net_const (Replied 503 (Inl JSONDecodeError))" example_env]
       a b c
  show ?thesis
    by (simp add: initial_world_def)
qed

text \<open>
  Claim C2, as the code has it. After a fetch that went to the network, got status 200
  and stored a competition value that Python counts as true (a non-empty list), a call
  less than 300 seconds later returns the stored value with the flag false and leaves the
  state as it is, request log included: no remote call. A call 300 seconds or more after
  the stored timestamp sends a request.
\<close>

theorem cache_served_within_window:
  "(\<not> cache_fresh w0 t1
      \<and> net1 (competitions_request e) = Replied 200 (Inr body)
      \<and> py_get body ''competitions'' (JArr []) = Inr comps
      \<and> truthy comps \<and> t2 - t1 < 300
    \<longrightarrow> (let w1 = snd (get_competitions_data e net1 t1 w0)
         in cache_data w1 = comps
          \<and> get_competitions_data e net2 t2 w1 = (Inr (cache_data w1, False), w1)))
 \<and> (300 \<le> t - cache_timestamp w
    \<longrightarrow> sent (snd (get_competitions_data e net t w)) = sent w @ [competitions_request e])"
proof (intro conjI impI)
  assume a: "\<not> cache_fresh w0 t1
      \<and> net1 (competitions_request e) = Replied 200 (Inr body)
      \<and> py_get body ''competitions'' (JArr []) = Inr comps
      \<and> truthy comps \<and> t2 - t1 < 300"
  then have w1: "snd (get_competitions_data e net1 t1 w0)
      = (send (competitions_request e) w0)\<lparr>cache_data := comps, cache_timestamp := t1\<rparr>"
    by (simp add: get_competitions_data_def competitions_try_def Let_def)
  have "cache_fresh ((send (competitions_request e) w0)\<lparr>cache_data := comps, cache_timestamp := t1\<rparr>) t2"
    using a by (simp add: cache_fresh_def CACHE_DURATION_def)
  then show "let w1 = snd (get_competitions_data e net1 t1 w0)
         in cache_data w1 = comps
          \<and> get_competitions_data e net2 t2 w1 = (Inr (cache_data w1, False), w1)"
    unfolding w1 Let_def
    by (simp add: get_competitions_data_def)
next
  assume "300 \<le> t - cache_timestamp w"
  then have "\<not> cache_fresh w t"
    by (simp add: cache_fresh_def CACHE_DURATION_def)
  then show "sent (snd (get_competitions_data e net t w)) = sent w @ [competitions_request e]"
    by (auto simp: get_competitions_data_def competitions_try_def Let_def
             split: outcome.splits sum.splits)
qed

theorem cache_served_within_window_witness:
  "\<not> cache_fresh initial_world 1000
   \<and> py_get (JObj [(''competitions'', two_competitions)]) ''competitions'' (JArr [])
       = Inr two_competitions
   \<and> truthy two_competitions \<and> (1299::real) - 1000 < 300
   \<and> get_competitions_data example_env (net_const (Failed RequestException)) 1299
       (snd (get_competitions_data example_env
              (net_const (Replied 200 (Inr (JObj [(''competitions'', two_competitions)]))))
              1000 initial_world))
     = (Inr (two_competitions, False),
        snd (get_competitions_data example_env
              (net_const (Replied 200 (Inr (JObj [(''competitions'', two_competitions)]))))
              1000 initial_world))
   \<and> (300::real) \<le> 1300 - cache_timestamp (initial_world\<lparr>cache_data := two_competitions, cache_timestamp := 1000\<rparr>)
   \<and> sent (snd (get_competitions_data example_env (net_const (Failed RequestException)) 1300
        (initial_world\<lparr>cache_data := two_competitions, cache_timestamp := 1000\<rparr>)))
     = [competitions_request example_env]"
proof -
  have a: "\<not> cache_fresh initial_world 1000"
    by (simp add: cache_fresh_def initial_world_def)
  have b: "py_get (JObj [(''competitions'', two_competitions)]) ''competitions'' (JArr [])
       = Inr two_competitions"
    by simp
  have c: "truthy two_competitions"
    by (simp add: two_competitions_def)
  have d: "net_const (Replied 200 (Inr (JObj [(''competitions'', two_competitions)])))
             (competitions_request example_env)
           = Replied 200 (Inr (JObj [(''competitions'', two_competitions)]))"
    by (simp add: net_const_def)
  from cache_served_within_window
         [of initial_world 1000
             "net_const (Replied 200 (Inr (JObj [(''competitions'', two_competitions)])))"
             example_env "JObj [(''competitions'', two_competitions)]" two_competitions
             1299 "net_const (Failed RequestException)" 1300
             "initial_world\<lparr>cache_data := two_competitions, cache_timestamp := 1000\<rparr>"
             "net_const (Failed RequestException)"]
       a b c d
  show ?thesis
    by (simp add: Let_def initial_world_def)
qed

text \<open>
  The claim as written fails when the successful fetch brought an empty competition list:
  the list is stored, but line 71 reads an empty list as no data, so the call one second
  later goes to the network again.
\<close>

theorem empty_competitions_refetched:
  "net_const (Replied 200 (Inr (JObj [(''competitions'', JArr [])])))
     (competitions_request example_env)
     = Replied 200 (Inr (JObj [(''competitions'', JArr [])]))
   \<and> \<not> cache_fresh initial_world 1000
   \<and> cache_timestamp (snd (get_competitions_data example_env
        (net_const (Replied 200 (Inr (JObj [(''competitions'', JArr [])])))) 1000
        initial_world)) = 1000
   \<and> (1001::real) - 1000 < 300
   \<and> sent (snd (get_competitions_data example_env
        (net_const (Replied 200 (Inr (JObj [(''competitions'', JArr [])])))) 1001
        (snd (get_competitions_data example_env
           (net_const (Replied 200 (Inr (JObj [(''competitions'', JArr [])])))) 1000
           initial_world))))
     = [competitions_request example_env, competitions_request example_env]"
  by (simp add: get_competitions_data_def competitions_try_def cache_fresh_def
        initial_world_def net_const_def Let_def)

lemma competitions_try_cases:
  "(\<exists>x. competitions_try e net t w = (Inl x, send (competitions_request e) w))
   \<or> competitions_try e net t w
        = (Inr (JArr (fallback_competitions w), True), send (competitions_request e) w)
   \<or> (\<exists>body comps. net (competitions_request e) = Replied 200 (Inr body)
         \<and> py_get body ''competitions'' (JArr []) = Inr comps
         \<and> competitions_try e net t w
             = (Inr (comps, False),
                (send (competitions_request e) w)\<lparr>cache_data := comps, cache_timestamp := t\<rparr>))"
  by (auto simp: competitions_try_def Let_def split: outcome.splits sum.splits)

lemma live_try_cache:
  "cache_data (snd (live_try e net now w)) = cache_data w
   \<and> cache_timestamp (snd (live_try e net now w)) = cache_timestamp w
   \<and> fallback_competitions (snd (live_try e net now w)) = fallback_competitions w"
  by (auto simp: live_try_def Let_def split: option.splits outcome.splits sum.splits)

lemma get_live_matches_snd: "snd (get_live_matches e net now w) = snd (live_try e net now w)"
  by (simp add: get_live_matches_def split: prod.splits sum.splits)

lemma upcoming_try_cache:
  "cache_data (snd (upcoming_try e net clk w)) = cache_data w
   \<and> cache_timestamp (snd (upcoming_try e net clk w)) = cache_timestamp w
   \<and> fallback_competitions (snd (upcoming_try e net clk w)) = fallback_competitions w"
  by (auto simp: upcoming_try_def Let_def split: option.splits outcome.splits sum.splits)

lemma get_upcoming_matches_snd:
  "snd (get_upcoming_matches e net clk w) = w
   \<or> snd (get_upcoming_matches e net clk w) = snd (upcoming_try e net clk w)"
  by (simp add: get_upcoming_matches_def split: prod.splits sum.splits option.splits)

text \<open>
  The three fetch operations and the cache. A call of
  \<^verbatim>\<open>get_competitions_data\<close> either leaves both cache fields as
  they were, or it went to the network, got status 200 with a JSON object, and stored the
  object's competition value and the call's time in the two fields together, returning
  that value with the flag false. \<^verbatim>\<open>get_live_matches\<close> and
  \<^verbatim>\<open>get_upcoming_matches\<close> leave both fields as they were on every path.
\<close>

theorem cache_updated_together_on_success_only:
  "((cache_data (snd (get_competitions_data e net t w)) = cache_data w
       \<and> cache_timestamp (snd (get_competitions_data e net t w)) = cache_timestamp w)
     \<or> (\<exists>body comps.
           net (competitions_request e) = Replied 200 (Inr body)
         \<and> py_get body ''competitions'' (JArr []) = Inr comps
         \<and> fst (get_competitions_data e net t w) = Inr (comps, False)
         \<and> cache_data (snd (get_competitions_data e net t w)) = comps
         \<and> cache_timestamp (snd (get_competitions_data e net t w)) = t))
   \<and> cache_data (snd (get_live_matches e net now w)) = cache_data w
   \<and> cache_timestamp (snd (get_live_matches e net now w)) = cache_timestamp w
   \<and> cache_data (snd (get_upcoming_matches e net clk w)) = cache_data w
   \<and> cache_timestamp (snd (get_upcoming_matches e net clk w)) = cache_timestamp w"
proof -
  have comp: "(cache_data (snd (get_competitions_data e net t w)) = cache_data w
       \<and> cache_timestamp (snd (get_competitions_data e net t w)) = cache_timestamp w)
     \<or> (\<exists>body comps.
           net (competitions_request e) = Replied 200 (Inr body)
         \<and> py_get body ''competitions'' (JArr []) = Inr comps
         \<and> fst (get_competitions_data e net t w) = Inr (comps, False)
         \<and> cache_data (snd (get_competitions_data e net t w)) = comps
         \<and> cache_timestamp (snd (get_competitions_data e net t w)) = t)"
  proof (cases "cache_fresh w t")
    case True
    then show ?thesis by (simp add: get_competitions_data_def)
  next
    case False
    from competitions_try_cases [of e net t w] show ?thesis
    proof (elim disjE exE conjE)
      fix x assume "competitions_try e net t w = (Inl x, send (competitions_request e) w)"
      with False show ?thesis by (simp add: get_competitions_data_def)
    next
      assume "competitions_try e net t w
        = (Inr (JArr (fallback_competitions w), True), send (competitions_request e) w)"
      with False show ?thesis by (simp add: get_competitions_data_def)
    next
      fix body comps
      assume "net (competitions_request e) = Replied 200 (Inr body)"
        and "py_get body ''competitions'' (JArr []) = Inr comps"
        and "competitions_try e net t w
             = (Inr (comps, False),
                (send (competitions_request e) w)\<lparr>cache_data := comps, cache_timestamp := t\<rparr>)"
      with False show ?thesis by (simp add: get_competitions_data_def)
    qed
  qed
  have live: "cache_data (snd (get_live_matches e net now w)) = cache_data w
     \<and> cache_timestamp (snd (get_live_matches e net now w)) = cache_timestamp w"
    using live_try_cache [of e net now w] by (simp add: get_live_matches_snd)
  have up: "cache_data (snd (get_upcoming_matches e net clk w)) = cache_data w
     \<and> cache_timestamp (snd (get_upcoming_matches e net clk w)) = cache_timestamp w"
    using upcoming_try_cache [of e net clk w] get_upcoming_matches_snd [of e net clk w]
    by auto
  from comp live up show ?thesis by blast
qed

theorem cache_updated_together_on_success_only_witness:
  "cache_data (snd (get_competitions_data example_env
      (net_const (Replied 200 (Inr (JObj [(''competitions'', two_competitions)])))) 1000
      initial_world)) = two_competitions
   \<and> cache_timestamp (snd (get_competitions_data example_env
      (net_const (Replied 200 (Inr (JObj [(''competitions'', two_competitions)])))) 1000
      initial_world)) = 1000
   \<and> cache_data initial_world \<noteq> two_competitions
   \<and> cache_timestamp initial_world \<noteq> 1000
   \<and> cache_data (snd (get_live_matches example_env (net_const (Failed RequestException))
        example_import_time initial_world)) = JNull"
proof -
  have a: "cache_data (snd (get_competitions_data example_env
      (net_const (Replied 200 (Inr (JObj [(''competitions'', two_competitions)])))) 1000
      initial_world)) = two_competitions
   \<and> cache_timestamp (snd (get_competitions_data example_env
      (net_const (Replied 200 (Inr (JObj [(''competitions'', two_competitions)])))) 1000
      initial_world)) = 1000
   \<and> cache_data initial_world \<noteq> two_competitions
   \<and> cache_timestamp initial_world \<noteq> 1000"
    by (simp add: get_competitions_data_def competitions_try_def cache_fresh_def
          initial_world_def net_const_def two_competitions_def Let_def)
  have b: "cache_data initial_world = JNull"
    by (simp add: initial_world_def)
  have c: "cache_data (snd (get_live_matches example_env (net_const (Failed RequestException))
        example_import_time initial_world)) = cache_data initial_world"
    using cache_updated_together_on_success_only
         [of example_env "net_const (Failed RequestException)" 1000 initial_world
             example_import_time example_clock]
    by blast
  from a b c show ?thesis
    by simp
qed

text \<open>
  Claim C4. Without a credential \<^verbatim>\<open>get_live_matches\<close> returns the fallback matches
  with the flag true and the state untouched, so no request is sent. With a credential
  and a status 200 reply whose body is an object with a match list, it returns the first
  ten entries of that list, at most ten, with the flag false. With a credential and a call
  that raises, a status other than 200, or a 200 reply whose body cannot be used, it
  returns the fallback matches with the flag true.
\<close>

theorem live_matches_by_case:
  "(\<not> key_configured e
      \<longrightarrow> get_live_matches e net now w = (Inr (JArr (FALLBACK_MATCHES e), True), w))
   \<and> (API_KEY e = Some k \<and> k \<noteq> []
       \<and> net (matches_request k (strftime_Ymd now) (strftime_Ymd now)) = Replied 200 (Inr body)
       \<and> py_get body ''matches'' (JArr []) = Inr (JArr ms)
      \<longrightarrow> fst (get_live_matches e net now w) = Inr (JArr (take 10 ms), False)
          \<and> length (take 10 ms) \<le> 10)
   \<and> (API_KEY e = Some k \<and> k \<noteq> []
       \<and> ((\<exists>x. net (matches_request k (strftime_Ymd now) (strftime_Ymd now)) = Failed x)
          \<or> (\<exists>st b. net (matches_request k (strftime_Ymd now) (strftime_Ymd now)) = Replied st b
                \<and> st \<noteq> 200)
          \<or> (\<exists>x. net (matches_request k (strftime_Ymd now) (strftime_Ymd now))
                = Replied 200 (Inl x))
          \<or> (\<exists>data x. net (matches_request k (strftime_Ymd now) (strftime_Ymd now))
                = Replied 200 (Inr data)
                \<and> py_get data ''matches'' (JArr []) = Inl x))
      \<longrightarrow> fst (get_live_matches e net now w) = Inr (JArr (FALLBACK_MATCHES e), True))"
proof (intro conjI impI)
  assume "\<not> key_configured e"
  then show "get_live_matches e net now w = (Inr (JArr (FALLBACK_MATCHES e), True), w)"
    by (auto simp: get_live_matches_def live_try_def key_configured_def split: option.splits)
next
  assume "API_KEY e = Some k \<and> k \<noteq> []
       \<and> net (matches_request k (strftime_Ymd now) (strftime_Ymd now)) = Replied 200 (Inr body)
       \<and> py_get body ''matches'' (JArr []) = Inr (JArr ms)"
  then show "fst (get_live_matches e net now w) = Inr (JArr (take 10 ms), False)"
    by (simp add: get_live_matches_def live_try_def Let_def)
next
  show "length (take 10 ms) \<le> 10"
    by simp
next
  assume "API_KEY e = Some k \<and> k \<noteq> []
       \<and> ((\<exists>x. net (matches_request k (strftime_Ymd now) (strftime_Ymd now)) = Failed x)
          \<or> (\<exists>st b. net (matches_request k (strftime_Ymd now) (strftime_Ymd now)) = Replied st b
                \<and> st \<noteq> 200)
          \<or> (\<exists>x. net (matches_request k (strftime_Ymd now) (strftime_Ymd now))
                = Replied 200 (Inl x))
          \<or> (\<exists>data x. net (matches_request k (strftime_Ymd now) (strftime_Ymd now))
                = Replied 200 (Inr data)
                \<and> py_get data ''matches'' (JArr []) = Inl x))"
  then show "fst (get_live_matches e net now w) = Inr (JArr (FALLBACK_MATCHES e), True)"
    by (auto simp: get_live_matches_def live_try_def Let_def)
qed

theorem live_matches_by_case_witness:
  "\<not> key_configured keyless_env
   \<and> get_live_matches keyless_env (net_const (Failed RequestException)) example_import_time
       initial_world
     = (Inr (JArr (FALLBACK_MATCHES keyless_env), True), initial_world)
   \<and> API_KEY example_env = Some ''secret'' \<and> ''secret'' \<noteq> []
   \<and> py_get (JObj [(''matches'', JArr (map JInt [1, 2, 3, 4, 5, 6, 7, 8, 9, 10, 11, 12]))])
       ''matches'' (JArr [])
     = Inr (JArr (map JInt [1, 2, 3, 4, 5, 6, 7, 8, 9, 10, 11, 12]))
   \<and> fst (get_live_matches example_env
        (net_const (Replied 200
           (Inr (JObj [(''matches'', JArr (map JInt [1, 2, 3, 4, 5, 6, 7, 8, 9, 10, 11, 12]))]))))
        example_import_time initial_world)
     = Inr (JArr (map JInt [1, 2, 3, 4, 5, 6, 7, 8, 9, 10]), False)
   \<and> fst (get_live_matches example_env (net_const (Replied 429 (Inl JSONDecodeError)))
        example_import_time initial_world)
     = Inr (JArr (FALLBACK_MATCHES example_env), True)"
proof -
  have a: "\<not> key_configured keyless_env"
    by (simp add: key_configured_def keyless_env_def)
  have b: "API_KEY example_env = Some ''secret'' \<and> ''secret'' \<noteq> []"
    by (simp add: example_env_def)
  have c: "py_get (JObj [(''matches'', JArr (map JInt [1, 2, 3, 4, 5, 6, 7, 8, 9, 10, 11, 12]))])
       ''matches'' (JArr [])
     = Inr (JArr (map JInt [1, 2, 3, 4, 5, 6, 7, 8, 9, 10, 11, 12]))"
    by simp
  have d: "take 10 (map JInt [1, 2, 3, 4, 5, 6, 7, 8, 9, 10, 11, 12])
     = map JInt [1, 2, 3, 4, 5, 6, 7, 8, 9, 10]"
    by simp
  note t1 = live_matches_by_case
         [of keyless_env "net_const (Failed RequestException)" example_import_time
             initial_world]
  note t2 = live_matches_by_case
         [of example_env
             "net_const (Replied 200
               (Inr (JObj [(''matches'', JArr (map JInt [1, 2, 3, 4, 5, 6, 7, 8, 9, 10, 11, 12]))])))"
             example_import_time initial_world "''secret''"
             "JObj [(''matches'', JArr (map JInt [1, 2, 3, 4, 5, 6, 7, 8, 9, 10, 11, 12]))]"
             "map JInt [1, 2, 3, 4, 5, 6, 7, 8, 9, 10, 11, 12]"]
  note t3 = live_matches_by_case
         [of example_env "net_const (Replied 429 (Inl JSONDecodeError))" example_import_time
             initial_world "''secret''"]
  have r1: "get_live_matches keyless_env (net_const (Failed RequestException))
       example_import_time initial_world
     = (Inr (JArr (FALLBACK_MATCHES keyless_env), True), initial_world)"
    using t1 a by blast
  have r2: "fst (get_live_matches example_env
        (net_const (Replied 200
           (Inr (JObj [(''matches'', JArr (map JInt [1, 2, 3, 4, 5, 6, 7, 8, 9, 10, 11, 12]))]))))
        example_import_time initial_world)
     = Inr (JArr (take 10 (map JInt [1, 2, 3, 4, 5, 6, 7, 8, 9, 10, 11, 12])), False)"
    using t2 b c by (simp add: net_const_def)
  have r3: "fst (get_live_matches example_env (net_const (Replied 429 (Inl JSONDecodeError)))
        example_import_time initial_world)
     = Inr (JArr (FALLBACK_MATCHES example_env), True)"
    using t3 b by (simp add: net_const_def)
  from a b c r1 r2 [unfolded d] r3 show ?thesis
    by blast
qed

lemma upcoming_fixtures_shape:
  "upcoming_fixtures clk = Inr up \<Longrightarrow>
   \<exists>d1 d2 d3.
     plus_timedelta (clk 0) (days 1) = Inr d1
     \<and> plus_timedelta (clk 1) (days 2) = Inr d2
     \<and> plus_timedelta (clk 2) (days 3) = Inr d3
     \<and> up = [fixture (team ''Chelsea'') (team ''Arsenal'')
                (isoformat d1) ''SCHEDULED'' ''Premier League'' JNull JNull,
              fixture (team ''AC Milan'') (team ''Inter Milan'')
                (isoformat d2) ''SCHEDULED'' ''Serie A'' JNull JNull,
              fixture (team ''Paris Saint-Germain'') (team ''Marseille'')
                (isoformat d3) ''SCHEDULED'' ''Ligue 1'' JNull JNull]"
  by (auto simp: upcoming_fixtures_def split: sum.splits)

text \<open>
  Claim C10. With a credential and a status 200 reply whose match list is empty,
  \<^verbatim>\<open>get_live_matches\<close> returns the empty list with the flag false, while
  \<^verbatim>\<open>get_upcoming_matches\<close> on such a reply returns its static fixtures with the flag
  true.
\<close>

theorem empty_live_reply_is_authoritative:
  "(API_KEY e = Some k \<and> k \<noteq> []
     \<and> net (matches_request k (strftime_Ymd now) (strftime_Ymd now)) = Replied 200 (Inr body)
     \<and> py_get body ''matches'' (JArr []) = Inr (JArr [])
    \<longrightarrow> fst (get_live_matches e net now w) = Inr (JArr [], False))
   \<and> (API_KEY e = Some k \<and> k \<noteq> []
     \<and> upcoming_fixtures clk = Inr up
     \<and> plus_timedelta (clk 3) (days 1) = Inr tomorrow
     \<and> plus_timedelta (clk 4) (days 7) = Inr week_ahead
     \<and> net (matches_request k (strftime_Ymd tomorrow) (strftime_Ymd week_ahead))
         = Replied 200 (Inr body)
     \<and> py_get body ''matches'' (JArr []) = Inr (JArr [])
    \<longrightarrow> fst (get_upcoming_matches e net clk w) = Inr (JArr up, True))"
  by (simp add: get_live_matches_def live_try_def get_upcoming_matches_def upcoming_try_def
        Let_def)

lemmas calendar_eval =
  plus_timedelta_def days_def hours_def DAY_US_def time_us_def ymd2ord_def
  days_before_year_def days_before_month.simps days_in_month_def is_leap_def
  MAXORDINAL_def ord2ymd_def Let_def

lemma year_text_2025: "year_text padded 2025 = ''2025''"
  by (cases padded) (simp_all add: year_text_def pad4_def digit_char_def decimal.simps)

lemmas print_eval =
  isoformat_def strftime_Ymd_def strftime_HM_def strftime_BdY_def month_name_def
  pad2_def pad4_def pad6_def digit_char_def year_text_2025

lemma example_days_ahead:
  "plus_timedelta (example_clock 0) (days 1)
     = Inr (example_import_time\<lparr>day := 31, hour := 12\<rparr>)"
  "plus_timedelta (example_clock 1) (days 2)
     = Inr (example_import_time\<lparr>month := 2, day := 1, hour := 12, microsecond := 1\<rparr>)"
  "plus_timedelta (example_clock (Suc 0)) (days 2)
     = Inr (example_import_time\<lparr>month := 2, day := 1, hour := 12, microsecond := 1\<rparr>)"
  "plus_timedelta (example_clock 2) (days 3)
     = Inr (example_import_time\<lparr>month := 2, day := 2, hour := 12, microsecond := 2\<rparr>)"
  "plus_timedelta (example_clock 3) (days 1)
     = Inr (example_import_time\<lparr>day := 31, hour := 12, microsecond := 3\<rparr>)"
  "plus_timedelta (example_clock 4) (days 7)
     = Inr (example_import_time\<lparr>month := 2, day := 6, hour := 12, microsecond := 4\<rparr>)"
  by (simp_all add: example_clock_def example_import_time_def calendar_eval)

lemma example_upcoming_fixtures: "upcoming_fixtures example_clock = Inr example_upcoming"
  by (simp add: upcoming_fixtures_def example_days_ahead example_upcoming_def
        example_import_time_def print_eval)

lemma example_range:
  "strftime_Ymd (example_import_time\<lparr>day := 31, hour := 12, microsecond := 3\<rparr>) = ''2025-01-31''"
  "strftime_Ymd (example_import_time\<lparr>month := 2, day := 6, hour := 12, microsecond := 4\<rparr>)
     = ''2025-02-06''"
  by (simp_all add: example_import_time_def print_eval)

theorem empty_live_reply_is_authoritative_witness:
  "API_KEY example_env = Some ''secret'' \<and> ''secret'' \<noteq> []
   \<and> py_get (JObj [(''matches'', JArr [])]) ''matches'' (JArr []) = Inr (JArr [])
   \<and> upcoming_fixtures example_clock = Inr example_upcoming
   \<and> fst (get_live_matches example_env
        (net_const (Replied 200 (Inr (JObj [(''matches'', JArr [])]))))
        example_import_time initial_world)
     = Inr (JArr [], False)
   \<and> fst (get_upcoming_matches example_env
        (net_const (Replied 200 (Inr (JObj [(''matches'', JArr [])]))))
        example_clock initial_world)
     = Inr (JArr example_upcoming, True)"
proof -
  have a: "API_KEY example_env = Some ''secret'' \<and> ''secret'' \<noteq> []"
    by (simp add: example_env_def)
  have b: "py_get (JObj [(''matches'', JArr [])]) ''matches'' (JArr []) = Inr (JArr [])"
    by simp
  from empty_live_reply_is_authoritative
         [of example_env "''secret''"
             "net_const (Replied 200 (Inr (JObj [(''matches'', JArr [])])))"
             example_import_time "JObj [(''matches'', JArr [])]" initial_world
             example_clock example_upcoming
             "example_import_time\<lparr>day := 31, hour := 12, microsecond := 3\<rparr>"
             "example_import_time\<lparr>month := 2, day := 6, hour := 12, microsecond := 4\<rparr>"]
       a b example_upcoming_fixtures example_days_ahead
  show ?thesis
    by (simp add: net_const_def)
qed

text \<open>
  Claim C3. Let the three fixtures be built (the clock is more than three days before
  the end of year 9999). They are Chelsea v Arsenal, AC Milan v Inter Milan and Paris
  Saint-Germain v Marseille, dated by the clock readings plus one, two and three days.
  Without a credential \<^verbatim>\<open>get_upcoming_matches\<close> returns them with the flag true and
  sends nothing. With a credential: a status 200 reply with a non-empty match list gives
  the first five entries of that list with the flag false; an empty match list, a call
  that raises, a status other than 200 or a body that is not JSON gives the three
  fixtures with the flag true.
\<close>

theorem upcoming_matches_by_case:
  assumes "upcoming_fixtures clk = Inr up"
  shows "length up = 3
   \<and> (\<exists>d1 d2 d3.
         plus_timedelta (clk 0) (days 1) = Inr d1
       \<and> plus_timedelta (clk 1) (days 2) = Inr d2
       \<and> plus_timedelta (clk 2) (days 3) = Inr d3
       \<and> up = [fixture (team ''Chelsea'') (team ''Arsenal'')
                  (isoformat d1) ''SCHEDULED'' ''Premier League'' JNull JNull,
                fixture (team ''AC Milan'') (team ''Inter Milan'')
                  (isoformat d2) ''SCHEDULED'' ''Serie A'' JNull JNull,
                fixture (team ''Paris Saint-Germain'') (team ''Marseille'')
                  (isoformat d3) ''SCHEDULED'' ''Ligue 1'' JNull JNull])
   \<and> (\<not> key_configured e
        \<longrightarrow> get_upcoming_matches e net clk w = (Inr (JArr up, True), w))
   \<and> (API_KEY e = Some k \<and> k \<noteq> []
       \<and> plus_timedelta (clk 3) (days 1) = Inr tomorrow
       \<and> plus_timedelta (clk 4) (days 7) = Inr week_ahead
       \<and> net (matches_request k (strftime_Ymd tomorrow) (strftime_Ymd week_ahead))
           = Replied 200 (Inr body)
       \<and> py_get body ''matches'' (JArr []) = Inr (JArr ms)
      \<longrightarrow> fst (get_upcoming_matches e net clk w)
            = (if ms = [] then Inr (JArr up, True) else Inr (JArr (take 5 ms), False)))
   \<and> (API_KEY e = Some k \<and> k \<noteq> []
       \<and> plus_timedelta (clk 3) (days 1) = Inr tomorrow
       \<and> plus_timedelta (clk 4) (days 7) = Inr week_ahead
       \<and> ((\<exists>x. net (matches_request k (strftime_Ymd tomorrow) (strftime_Ymd week_ahead))
                = Failed x)
          \<or> (\<exists>st b. net (matches_request k (strftime_Ymd tomorrow) (strftime_Ymd week_ahead))
                = Replied st b \<and> st \<noteq> 200)
          \<or> (\<exists>x. net (matches_request k (strftime_Ymd tomorrow) (strftime_Ymd week_ahead))
                = Replied 200 (Inl x)))
      \<longrightarrow> fst (get_upcoming_matches e net clk w) = Inr (JArr up, True))"
proof (intro conjI impI)
  from upcoming_fixtures_shape [OF assms]
  show "\<exists>d1 d2 d3.
         plus_timedelta (clk 0) (days 1) = Inr d1
       \<and> plus_timedelta (clk 1) (days 2) = Inr d2
       \<and> plus_timedelta (clk 2) (days 3) = Inr d3
       \<and> up = [fixture (team ''Chelsea'') (team ''Arsenal'')
                  (isoformat d1) ''SCHEDULED'' ''Premier League'' JNull JNull,
                fixture (team ''AC Milan'') (team ''Inter Milan'')
                  (isoformat d2) ''SCHEDULED'' ''Serie A'' JNull JNull,
                fixture (team ''Paris Saint-Germain'') (team ''Marseille'')
                  (isoformat d3) ''SCHEDULED'' ''Ligue 1'' JNull JNull]" .
  then show "length up = 3"
    by auto
next
  assume "\<not> key_configured e"
  then show "get_upcoming_matches e net clk w = (Inr (JArr up, True), w)"
    using assms
    by (auto simp: get_upcoming_matches_def upcoming_try_def key_configured_def
             split: option.splits)
next
  assume "API_KEY e = Some k \<and> k \<noteq> []
       \<and> plus_timedelta (clk 3) (days 1) = Inr tomorrow
       \<and> plus_timedelta (clk 4) (days 7) = Inr week_ahead
       \<and> net (matches_request k (strftime_Ymd tomorrow) (strftime_Ymd week_ahead))
           = Replied 200 (Inr body)
       \<and> py_get body ''matches'' (JArr []) = Inr (JArr ms)"
  then show "fst (get_upcoming_matches e net clk w)
            = (if ms = [] then Inr (JArr up, True) else Inr (JArr (take 5 ms), False))"
    using assms
    by (simp add: get_upcoming_matches_def upcoming_try_def Let_def)
next
  assume "API_KEY e = Some k \<and> k \<noteq> []
       \<and> plus_timedelta (clk 3) (days 1) = Inr tomorrow
       \<and> plus_timedelta (clk 4) (days 7) = Inr week_ahead
       \<and> ((\<exists>x. net (matches_request k (strftime_Ymd tomorrow) (strftime_Ymd week_ahead))
                = Failed x)
          \<or> (\<exists>st b. net (matches_request k (strftime_Ymd tomorrow) (strftime_Ymd week_ahead))
                = Replied st b \<and> st \<noteq> 200)
          \<or> (\<exists>x. net (matches_request k (strftime_Ymd tomorrow) (strftime_Ymd week_ahead))
                = Replied 200 (Inl x)))"
  then show "fst (get_upcoming_matches e net clk w) = Inr (JArr up, True)"
    using assms
    by (auto simp: get_upcoming_matches_def upcoming_try_def Let_def)
qed

theorem upcoming_matches_by_case_witness:
  "upcoming_fixtures example_clock = Inr example_upcoming
   \<and> \<not> key_configured keyless_env
   \<and> get_upcoming_matches keyless_env (net_const (Failed RequestException)) example_clock
       initial_world
     = (Inr (JArr example_upcoming, True), initial_world)
   \<and> API_KEY example_env = Some ''secret'' \<and> ''secret'' \<noteq> []
   \<and> matches_request ''secret''
        (strftime_Ymd (example_import_time\<lparr>day := 31, hour := 12, microsecond := 3\<rparr>))
        (strftime_Ymd (example_import_time\<lparr>month := 2, day := 6, hour := 12, microsecond := 4\<rparr>))
     = \<lparr>url = ''https://api.football-data.org/v4/matches'',
        headers = [(''X-Auth-Token'', ''secret'')],
        params = [(''dateFrom'', ''2025-01-31''), (''dateTo'', ''2025-02-06'')],
        timeout = 10\<rparr>
   \<and> fst (get_upcoming_matches example_env
        (net_const (Replied 200
           (Inr (JObj [(''matches'', JArr (map JInt [1, 2, 3, 4, 5, 6, 7]))]))))
        example_clock initial_world)
     = Inr (JArr (map JInt [1, 2, 3, 4, 5]), False)
   \<and> fst (get_upcoming_matches example_env (net_const (Replied 500 (Inl JSONDecodeError)))
        example_clock initial_world)
     = Inr (JArr example_upcoming, True)"
proof -
  have a: "\<not> key_configured keyless_env"
    by (simp add: key_configured_def keyless_env_def)
  have b: "API_KEY example_env = Some ''secret'' \<and> ''secret'' \<noteq> []"
    by (simp add: example_env_def)
  have c: "matches_request ''secret''
        (strftime_Ymd (example_import_time\<lparr>day := 31, hour := 12, microsecond := 3\<rparr>))
        (strftime_Ymd (example_import_time\<lparr>month := 2, day := 6, hour := 12, microsecond := 4\<rparr>))
     = \<lparr>url = ''https://api.football-data.org/v4/matches'',
        headers = [(''X-Auth-Token'', ''secret'')],
        params = [(''dateFrom'', ''2025-01-31''), (''dateTo'', ''2025-02-06'')],
        timeout = 10\<rparr>"
    by (simp add: matches_request_def example_range MATCHES_URL_def API_BASE_def)
  have d: "py_get (JObj [(''matches'', JArr (map JInt [1, 2, 3, 4, 5, 6, 7]))]) ''matches'' (JArr [])
     = Inr (JArr (map JInt [1, 2, 3, 4, 5, 6, 7]))"
    by simp
  have r1: "get_upcoming_matches keyless_env (net_const (Failed RequestException)) example_clock
       initial_world
     = (Inr (JArr example_upcoming, True), initial_world)"
    using upcoming_matches_by_case
            [OF example_upcoming_fixtures, of keyless_env "net_const (Failed RequestException)"
               initial_world]
          a
    by blast
  have r2: "fst (get_upcoming_matches example_env
        (net_const (Replied 200
           (Inr (JObj [(''matches'', JArr (map JInt [1, 2, 3, 4, 5, 6, 7]))]))))
        example_clock initial_world)
     = Inr (JArr (map JInt [1, 2, 3, 4, 5]), False)"
    using upcoming_matches_by_case
            [OF example_upcoming_fixtures, of example_env
               "net_const (Replied 200
                  (Inr (JObj [(''matches'', JArr (map JInt [1, 2, 3, 4, 5, 6, 7]))])))"
               initial_world "''secret''"
               "example_import_time\<lparr>day := 31, hour := 12, microsecond := 3\<rparr>"
               "example_import_time\<lparr>month := 2, day := 6, hour := 12, microsecond := 4\<rparr>"
               "JObj [(''matches'', JArr (map JInt [1, 2, 3, 4, 5, 6, 7]))]"
               "map JInt [1, 2, 3, 4, 5, 6, 7]"]
          b d example_days_ahead
    by (simp add: net_const_def)
  have r3: "fst (get_upcoming_matches example_env (net_const (Replied 500 (Inl JSONDecodeError)))
        example_clock initial_world)
     = Inr (JArr example_upcoming, True)"
    using upcoming_matches_by_case
            [OF example_upcoming_fixtures, of example_env
               "net_const (Replied 500 (Inl JSONDecodeError))"
               initial_world "''secret''"
               "example_import_time\<lparr>day := 31, hour := 12, microsecond := 3\<rparr>"
               "example_import_time\<lparr>month := 2, day := 6, hour := 12, microsecond := 4\<rparr>"]
          b example_days_ahead
    by (simp add: net_const_def)
  from example_upcoming_fixtures a b c r1 r2 r3 show ?thesis
    by blast
qed

section \<open>Properties of filtering and sorting\<close>

lemma py_in_sublist: "py_in a b = sublist a b"
  by (induction b) (auto simp: sublist_Cons_right)

lemma contains_iff: "(\<exists>u v. b = u @ a @ v) = py_in a b"
  by (simp add: py_in_sublist sublist_def)

lemma filter_err_total:
  "\<forall>x\<in>set xs. p x = Inr (P x) \<Longrightarrow> filter_err p xs = Inr (filter P xs)"
  by (induction xs) auto

lemma map_err_total:
  "\<forall>x\<in>set xs. f x = Inr (g x) \<Longrightarrow> map_err f xs = Inr (map g xs)"
  by (induction xs) auto

lemma well_formed_cases:
  assumes "well_formed item"
  obtains kvs n c a where "item = JObj kvs"
    and "text_field kvs ''name'' = Some n" and "text_field kvs ''code'' = Some c"
    and "competition_fields item = Some (n, c, a)"
proof (cases item)
  case (JObj kvs)
  with assms obtain n c a where "competition_fields item = Some (n, c, a)"
    by (auto simp: well_formed_def)
  with JObj that show ?thesis
    by (auto split: option.splits json.splits)
qed (use assms in \<open>auto simp: well_formed_def\<close>)

lemma text_field_get:
  "text_field kvs k = Some s \<Longrightarrow> py_get (JObj kvs) k (JStr []) = Inr (JStr s)"
  by (auto simp: text_field_def split: option.splits json.splits)

lemma well_formed_name_key:
  "well_formed item \<Longrightarrow> name_key item = Inr (JStr (comp_name item))"
  by (erule well_formed_cases)
     (auto simp: name_key_def comp_name_def text_field_def split: option.splits json.splits)

lemma well_formed_search:
  assumes "well_formed item"
  shows "search_matches lower q item
     = Inr (py_in q (lower (comp_name item)) \<or> py_in q (lower (comp_code item)))"
  using assms
proof (rule well_formed_cases)
  fix kvs n c a
  assume "item = JObj kvs" "text_field kvs ''name'' = Some n"
    "text_field kvs ''code'' = Some c" "competition_fields item = Some (n, c, a)"
  then show ?thesis
    using text_field_get [of kvs "''name''" n] text_field_get [of kvs "''code''" c]
    by (simp add: search_matches_def comp_name_def comp_code_def)
qed

lemma well_formed_area:
  assumes "well_formed item"
  shows "area_name item = Inr (JStr (comp_area item))"
proof (cases item)
  case (JObj kvs)
  with assms obtain n c a where f: "competition_fields (JObj kvs) = Some (n, c, a)"
    by (auto simp: well_formed_def)
  show ?thesis
  proof (cases "map_of kvs ''area''")
    case None
    with f JObj show ?thesis
      by (auto simp: area_name_def comp_area_def split: option.splits)
  next
    case (Some v)
    with f obtain akvs where v: "v = JObj akvs" and t: "text_field akvs ''name'' = Some a"
      by (auto split: option.splits json.splits)
    from Some v t f JObj text_field_get [OF t] show ?thesis
      by (simp add: area_name_def comp_area_def)
  qed
qed (use assms in \<open>auto simp: well_formed_def\<close>)

lemma well_formed_country:
  "well_formed item \<Longrightarrow>
   country_matches lower country item = Inr (lower (comp_area item) = lower country)"
  by (simp add: country_matches_def well_formed_area)

text \<open>
  Claim C7. On a list of well-formed competition records, the search filter for a term
  keeps, in order, exactly the records whose lowered name or lowered code contains the
  lowered term as a contiguous piece, so it keeps nothing when no record matches; the
  country filter for a given (non-empty) country keeps exactly the records whose lowered
  area name equals the lowered country, and without a country every record is kept. This
  holds whatever function lowers strings.
\<close>

theorem filters_keep_exactly_the_matches:
  assumes "\<forall>item\<in>set xs. well_formed item"
  shows "\<exists>ys zs.
      filter_by_search lower (lower term) (JArr xs) = Inr (JArr ys)
    \<and> ys = filter (\<lambda>item. (\<exists>u v. lower (comp_name item) = u @ lower term @ v)
                         \<or> (\<exists>u v. lower (comp_code item) = u @ lower term @ v)) xs
    \<and> ((\<forall>item\<in>set xs. \<not> (\<exists>u v. lower (comp_name item) = u @ lower term @ v)
                         \<and> \<not> (\<exists>u v. lower (comp_code item) = u @ lower term @ v))
        \<longrightarrow> ys = [])
    \<and> filter_by_country lower country (JArr xs) = Inr (JArr zs)
    \<and> (country \<noteq> [] \<longrightarrow> zs = filter (\<lambda>item. lower (comp_area item) = lower country) xs)
    \<and> (country = [] \<longrightarrow> zs = xs)"
proof -
  let ?P = "\<lambda>item. py_in (lower term) (lower (comp_name item))
                  \<or> py_in (lower term) (lower (comp_code item))"
  have s: "filter_err (search_matches lower (lower term)) xs = Inr (filter ?P xs)"
    using assms by (intro filter_err_total) (simp add: well_formed_search)
  have all: "lower term = [] \<Longrightarrow> filter ?P xs = xs"
    by (simp add: py_in_sublist)
  have search: "filter_by_search lower (lower term) (JArr xs) = Inr (JArr (filter ?P xs))"
    using s all by (simp add: filter_by_search_def)
  have c: "filter_err (country_matches lower country) xs
             = Inr (filter (\<lambda>item. lower (comp_area item) = lower country) xs)"
    using assms by (intro filter_err_total) (simp add: well_formed_country)
  have country: "filter_by_country lower country (JArr xs)
      = Inr (JArr (if country \<noteq> [] then filter (\<lambda>item. lower (comp_area item) = lower country) xs
                   else xs))"
    using c by (simp add: filter_by_country_def)
  have none: "\<forall>item\<in>set xs. \<not> ?P item \<Longrightarrow> filter ?P xs = []"
    by (simp add: filter_empty_conv)
  show ?thesis
    using search country none
    by (simp add: contains_iff)
qed

theorem filters_keep_exactly_the_matches_witness:
  "well_formed (competition ''Serie A'' ''SA'' ''Italy'' ''TIER_ONE'')
   \<and> well_formed (competition ''La Liga'' ''PD'' ''Spain'' ''TIER_ONE'')
   \<and> filter_by_search ascii_lower (ascii_lower ''Pd'') two_competitions
       = Inr (JArr [competition ''La Liga'' ''PD'' ''Spain'' ''TIER_ONE''])
   \<and> filter_by_search ascii_lower (ascii_lower ''bundes'') two_competitions = Inr (JArr [])
   \<and> filter_by_country ascii_lower ''ITALY'' two_competitions
       = Inr (JArr [competition ''Serie A'' ''SA'' ''Italy'' ''TIER_ONE''])"
proof -
  have wf: "well_formed (competition ''Serie A'' ''SA'' ''Italy'' ''TIER_ONE'')
     \<and> well_formed (competition ''La Liga'' ''PD'' ''Spain'' ''TIER_ONE'')"
    by (simp add: well_formed_def competition_def text_field_def)
  then have all: "\<forall>item\<in>set [competition ''Serie A'' ''SA'' ''Italy'' ''TIER_ONE'',
                           competition ''La Liga'' ''PD'' ''Spain'' ''TIER_ONE'']. well_formed item"
    by simp
  have f: "comp_name (competition n c a p) = n" "comp_code (competition n c a p) = c"
    "comp_area (competition n c a p) = a" for n c a p
    by (simp_all add: comp_name_def comp_code_def comp_area_def competition_def text_field_def)
  have l: "ascii_lower ''Pd'' = ''pd''" "ascii_lower ''bundes'' = ''bundes''"
    "ascii_lower ''ITALY'' = ''italy''" "ascii_lower ''Italy'' = ''italy''"
    "ascii_lower ''Spain'' = ''spain''" "ascii_lower ''Serie A'' = ''serie a''"
    "ascii_lower ''La Liga'' = ''la liga''" "ascii_lower ''SA'' = ''sa''"
    "ascii_lower ''PD'' = ''pd''"
    by (simp_all add: ascii_lower_def ascii_lower_char_def)
  from filters_keep_exactly_the_matches
         [OF all, of ascii_lower "''Pd''" "''ITALY''", unfolded contains_iff]
  have r1: "filter_by_search ascii_lower (ascii_lower ''Pd'') two_competitions
       = Inr (JArr [competition ''La Liga'' ''PD'' ''Spain'' ''TIER_ONE''])
     \<and> filter_by_country ascii_lower ''ITALY'' two_competitions
       = Inr (JArr [competition ''Serie A'' ''SA'' ''Italy'' ''TIER_ONE''])"
    by (simp add: two_competitions_def f l)
  from filters_keep_exactly_the_matches
         [OF all, of ascii_lower "''bundes''" "''ITALY''", unfolded contains_iff]
  have r2: "filter_by_search ascii_lower (ascii_lower ''bundes'') two_competitions = Inr (JArr [])"
    by (simp add: two_competitions_def f l)
  from wf r1 r2 show ?thesis
    by blast
qed

lemma insort_key_map:
  "insort_key k (m x) (map m ys) = map m (insort_key (\<lambda>y. k (m y)) x ys)"
  by (induction ys) auto

lemma sort_key_map: "sort_key k (map m xs) = map m (sort_key (\<lambda>y. k (m y)) xs)"
  by (induction xs) (auto simp: insort_key_map)

lemma sort_key_short: "length xs \<le> 1 \<Longrightarrow> sort_key k xs = xs"
  by (cases xs) auto

lemma all_comparable_strings: "all_comparable (map (\<lambda>x. JStr (f x)) xs)"
  by (simp add: all_comparable_def list_all_iff)

lemma insort_by_strings:
  "insort_by (\<lambda>p q. not_after (fst p) (fst q)) (JStr (f x), x)
       (map (\<lambda>x. (JStr (f x), x)) ys)
     = map (\<lambda>x. (JStr (f x), x)) (insort_key f x ys)"
  by (induction ys) (auto simp: not_after_def)

lemma stable_sort_strings:
  "stable_sort (\<lambda>p q. not_after (fst p) (fst q)) (map (\<lambda>x. (JStr (f x), x)) xs)
     = map (\<lambda>x. (JStr (f x), x)) (sort_key f xs)"
proof (induction xs)
  case Nil
  show ?case
    by (simp add: stable_sort_def)
next
  case (Cons x xs)
  have "stable_sort (\<lambda>p q. not_after (fst p) (fst q))
          (map (\<lambda>x. (JStr (f x), x)) (x # xs))
     = insort_by (\<lambda>p q. not_after (fst p) (fst q)) (JStr (f x), x)
         (stable_sort (\<lambda>p q. not_after (fst p) (fst q)) (map (\<lambda>x. (JStr (f x), x)) xs))"
    by (simp add: stable_sort_def)
  then show ?case
    by (simp add: Cons.IH insort_by_strings)
qed

lemma py_sort_pairs_strings:
  "py_sort_pairs (zip (map (\<lambda>x. JStr (f x)) xs) xs) = Inr (sort_key f xs)"
proof -
  have z: "zip (map (\<lambda>x. JStr (f x)) xs) xs = map (\<lambda>x. (JStr (f x), x)) xs"
    by (induction xs) auto
  have k: "map fst (map (\<lambda>x. (JStr (f x), x)) xs) = map (\<lambda>x. JStr (f x)) xs"
    by simp
  have v: "map snd (map (\<lambda>x. (JStr (f x), x)) ys) = ys" for ys
    by (simp add: comp_def)
  show ?thesis
    unfolding z py_sort_pairs_def k stable_sort_strings v
    by (simp add: all_comparable_strings sort_key_short)
qed

text \<open>Keys that are lists are sorted as Python compares lists; keys of two kinds that
  cannot be compared make the sort raise.\<close>

lemma py_sort_pairs_list_keys:
  "py_sort_pairs [(JArr [JInt 2], a), (JArr [JInt 1, JInt 5], b), (JArr [JInt 1], c)]
     = Inr [c, b, a]"
  by (auto simp: py_sort_pairs_def all_comparable_def stable_sort_def not_after_def)

lemma py_sort_pairs_mixed_keys:
  "py_sort_pairs [(JStr ''Serie A'', a), (JInt 1, b)] = Inl TypeError"
  by (simp add: py_sort_pairs_def all_comparable_def)

lemma sort_by_name_well_formed:
  assumes "\<forall>item\<in>set xs. well_formed item"
  shows "sort_competitions ''name'' (JArr xs) = Inr (Some (sort_key comp_name xs))"
proof -
  have "map_err name_key xs = Inr (map (\<lambda>x. JStr (comp_name x)) xs)"
    using assms by (intro map_err_total) (simp add: well_formed_name_key)
  then show ?thesis
    by (simp add: sort_competitions_def py_sort_by_def py_sort_pairs_strings)
qed

text \<open>
  Claim C8. Sorting a list of well-formed competition records by name succeeds; the
  result holds the same records with their names in non-decreasing order; sorting the
  result again returns it unchanged, and so does sorting any list whose names are already
  in order.
\<close>

theorem sort_by_name_sorted_and_idempotent:
  assumes "\<forall>item\<in>set xs. well_formed item"
  shows "\<exists>ys. sort_competitions ''name'' (JArr xs) = Inr (Some ys)
     \<and> sorted (map comp_name ys)
     \<and> mset ys = mset xs
     \<and> sort_competitions ''name'' (JArr ys) = Inr (Some ys)
     \<and> (sorted (map comp_name xs) \<longrightarrow> ys = xs)"
proof -
  let ?ys = "sort_key comp_name xs"
  have a: "sort_competitions ''name'' (JArr xs) = Inr (Some ?ys)"
    by (rule sort_by_name_well_formed [OF assms])
  have b: "sorted (map comp_name ?ys)"
    by (rule sorted_sort_key)
  have c: "mset ?ys = mset xs"
    by simp
  have "\<forall>item\<in>set ?ys. well_formed item"
    using assms by simp
  then have "sort_competitions ''name'' (JArr ?ys) = Inr (Some (sort_key comp_name ?ys))"
    by (rule sort_by_name_well_formed)
  moreover have "sort_key comp_name ?ys = ?ys"
    using b by (rule sort_key_id_if_sorted)
  ultimately have d: "sort_competitions ''name'' (JArr ?ys) = Inr (Some ?ys)"
    by simp
  have e: "sorted (map comp_name xs) \<longrightarrow> ?ys = xs"
    by (simp add: sort_key_id_if_sorted)
  from a b c d e show ?thesis
    by blast
qed

theorem sort_by_name_sorted_and_idempotent_witness:
  "well_formed (competition ''Serie A'' ''SA'' ''Italy'' ''TIER_ONE'')
   \<and> well_formed (competition ''La Liga'' ''PD'' ''Spain'' ''TIER_ONE'')
   \<and> sort_competitions ''name'' two_competitions
       = Inr (Some [competition ''La Liga'' ''PD'' ''Spain'' ''TIER_ONE'',
                    competition ''Serie A'' ''SA'' ''Italy'' ''TIER_ONE''])
   \<and> sorted [''La Liga'', ''Serie A'']
   \<and> sort_competitions ''name''
        (JArr [competition ''La Liga'' ''PD'' ''Spain'' ''TIER_ONE'',
               competition ''Serie A'' ''SA'' ''Italy'' ''TIER_ONE''])
       = Inr (Some [competition ''La Liga'' ''PD'' ''Spain'' ''TIER_ONE'',
                    competition ''Serie A'' ''SA'' ''Italy'' ''TIER_ONE''])"
proof -
  have wf: "well_formed (competition ''Serie A'' ''SA'' ''Italy'' ''TIER_ONE'')
     \<and> well_formed (competition ''La Liga'' ''PD'' ''Spain'' ''TIER_ONE'')"
    by (simp add: well_formed_def competition_def text_field_def)
  then have all: "\<forall>item\<in>set [competition ''Serie A'' ''SA'' ''Italy'' ''TIER_ONE'',
                           competition ''La Liga'' ''PD'' ''Spain'' ''TIER_ONE'']. well_formed item"
    by simp
  have f: "comp_name (competition n c a p) = n" for n c a p
    by (simp add: comp_name_def competition_def text_field_def)
  have s: "sort_competitions ''name'' two_competitions
       = Inr (Some [competition ''La Liga'' ''PD'' ''Spain'' ''TIER_ONE'',
                    competition ''Serie A'' ''SA'' ''Italy'' ''TIER_ONE''])"
    by (simp add: sort_by_name_well_formed [OF all] two_competitions_def f)
  from sort_by_name_sorted_and_idempotent [OF all] s
  show ?thesis
    using wf by (auto simp: two_competitions_def f)
qed

section \<open>Properties of the formatters\<close>

lemmas parse_eval =
  fromisoformat_def parse_isoformat_def parse_date_def parse_time_def parse_hh_mm_ss_ff_def number_def
  digit_val_def make_datetime_def utf8_length_def is_sign_def days_in_month_def is_leap_def
  DAY_US_def

lemma digit_val_nth: "k < 10 \<Longrightarrow> digit_val (''0123456789'' ! k) = Some k"
proof -
  assume "k < 10"
  then have "k \<in> {0, 1, 2, 3, 4, 5, 6, 7, 8, 9}"
    by auto
  then show ?thesis
    by (auto simp: digit_val_def)
qed

lemma digit_val_digit_char: "digit_val (digit_char d) = Some (d mod 10)"
  by (simp add: digit_char_def digit_val_nth)

lemma digit_char_neq: "digit_val c = None \<Longrightarrow> digit_char d \<noteq> c"
  using digit_val_digit_char [of d] by auto

lemma digit_char_not_special [simp]:
  "digit_char d \<noteq> CHR ''Z''" "digit_char d \<noteq> CHR ''+''" "digit_char d \<noteq> CHR ''-''"
  "digit_char d \<noteq> CHR '':''" "digit_char d \<noteq> CHR ''.''"
  by (rule digit_char_neq, simp add: digit_val_def)+










text \<open>Where the installed libraries decide: a year below 1000 is printed with or
  without leading zeros, and a timestamp without hyphens is read or not.\<close>

lemma year_below_1000:
  "strftime_BdY False (example_import_time\<lparr>year := 999\<rparr>) = ''January 30, 999''"
  "strftime_BdY True (example_import_time\<lparr>year := 999\<rparr>) = ''January 30, 0999''"
  by (simp_all add: strftime_BdY_def year_text_def decimal.simps example_import_time_def
        month_name_def pad2_def pad4_def digit_char_def)

lemma basic_format_left_to_the_library:
  "fromisoformat other ''20250130T101500'' = other ''20250130T101500''"
  by (simp add: fromisoformat_def parse_isoformat_def parse_date_def)



section \<open>What the route handler passes on\<close>

lemma example_FALLBACK_MATCHES_value:
  "example_FALLBACK_MATCHES =
     [fixture (team_crest ''Manchester United'' red_circle) (team_crest ''Liverpool'' red_circle)
        ''2025-01-30T12:00:00'' ''SCHEDULED'' ''Premier League'' JNull JNull,
      fixture (team_crest ''Barcelona'' blue_circle) (team_crest ''Real Madrid'' white_circle)
        ''2025-01-30T10:00:00'' ''IN_PLAY'' ''La Liga'' (JInt 2) (JInt 1),
      fixture (team_crest ''Bayern Munich'' red_circle)
        (team_crest ''Borussia Dortmund'' yellow_circle)
        ''2025-01-30T09:00:00'' ''FINISHED'' ''Bundesliga'' (JInt 3) (JInt 2)]"
  by (simp add: example_FALLBACK_MATCHES_def build_FALLBACK_MATCHES_def calendar_eval
        print_eval example_import_time_def)

lemma length_example_FALLBACK_MATCHES: "length example_FALLBACK_MATCHES = 3"
  by (simp add: example_FALLBACK_MATCHES_value)

lemmas fetch_eval =
  home_fetch_def get_competitions_data_def competitions_try_def cache_fresh_def
  CACHE_DURATION_def initial_world_def net_const_def Let_def get_live_matches_def live_try_def
  example_env_def get_upcoming_matches_def upcoming_try_def example_upcoming_fixtures
  example_days_ahead length_example_FALLBACK_MATCHES

lemma fetch_live_down:
  "fst (home_fetch example_env outside_live_down initial_world)
     = Inr \<lparr>competitions = two_competitions, using_fallback = False,
            live_matches = JArr example_FALLBACK_MATCHES, matches_fallback = True,
            upcoming_matches = JArr example_upcoming, upcoming_fallback = True\<rparr>"
  by (simp add: outside_live_down_def fetch_eval)

lemma fetch_live_up:
  "fst (home_fetch example_env outside_live_up initial_world)
     = Inr \<lparr>competitions = two_competitions, using_fallback = False,
            live_matches = JArr example_FALLBACK_MATCHES, matches_fallback = False,
            upcoming_matches = JArr example_upcoming, upcoming_fallback = True\<rparr>"
  by (simp add: outside_live_up_def outside_live_down_def fetch_eval)

lemma fetched_cache:
  "cache_data (snd (home_fetch example_env outside_live_down initial_world)) = two_competitions"
  "cache_timestamp (snd (home_fetch example_env outside_live_down initial_world)) = 1000"
  "cache_data (snd (home_fetch example_env outside_live_up initial_world)) = two_competitions"
  "cache_timestamp (snd (home_fetch example_env outside_live_up initial_world)) = 1000"
  by (simp_all add: outside_live_up_def outside_live_down_def fetch_eval)

lemma processed_live_example:
  "process_all (process_live e) (JArr example_FALLBACK_MATCHES)
     = Inr [JObj [(''homeTeam'', JStr ''Manchester United''), (''awayTeam'', JStr ''Liverpool''),
                 (''homeScore'', JNull), (''awayScore'', JNull),
                 (''status'', JStr '' Scheduled''), (''competition'', JStr ''Premier League''),
                 (''time'', JStr ''12:00''), (''is_live'', JBool False)],
           JObj [(''homeTeam'', JStr ''Barcelona''), (''awayTeam'', JStr ''Real Madrid''),
                 (''homeScore'', JInt 2), (''awayScore'', JInt 1),
                 (''status'', JStr '' LIVE''), (''competition'', JStr ''La Liga''),
                 (''time'', JStr ''10:00''), (''is_live'', JBool True)],
           JObj [(''homeTeam'', JStr ''Bayern Munich''), (''awayTeam'', JStr ''Borussia Dortmund''),
                 (''homeScore'', JInt 3), (''awayScore'', JInt 2),
                 (''status'', JStr '' Finished''), (''competition'', JStr ''Bundesliga''),
                 (''time'', JStr ''09:00''), (''is_live'', JBool False)]]"
  by (simp add: process_all_def example_FALLBACK_MATCHES_value process_live_def fixture_def
        team_crest_def py_get2_def py_get3_def status_map_def formatted_def
        format_match_time_def match_time_try_def parse_eval print_eval)

lemma processed_upcoming_example:
  "process_all (process_upcoming e) (JArr example_upcoming)
     = Inr [JObj [(''homeTeam'', JStr ''Chelsea''), (''awayTeam'', JStr ''Arsenal''),
                 (''competition'', JStr ''Premier League''),
                 (''date'', JStr ''January 31, 2025''), (''time'', JStr ''12:00'')],
           JObj [(''homeTeam'', JStr ''AC Milan''), (''awayTeam'', JStr ''Inter Milan''),
                 (''competition'', JStr ''Serie A''),
                 (''date'', JStr ''February 01, 2025''), (''time'', JStr ''12:00'')],
           JObj [(''homeTeam'', JStr ''Paris Saint-Germain''), (''awayTeam'', JStr ''Marseille''),
                 (''competition'', JStr ''Ligue 1''),
                 (''date'', JStr ''February 02, 2025''), (''time'', JStr ''12:00'')]]"
  by (simp add: process_all_def example_upcoming_def process_upcoming_def fixture_def team_def
        py_get2_def formatted_def format_match_time_def match_time_try_def
        format_upcoming_date_def upcoming_date_try_def parse_eval print_eval)

lemma sorted_two_competitions:
  "sort_competitions ''name'' two_competitions
     = Inr (Some [competition ''La Liga'' ''PD'' ''Spain'' ''TIER_ONE'',
                  competition ''Serie A'' ''SA'' ''Italy'' ''TIER_ONE''])"
  by (auto simp: sort_competitions_def py_sort_by_def two_competitions_def name_key_def
        competition_def py_sort_pairs_def all_comparable_def stable_sort_def not_after_def)

lemma countries_of_sorted_two:
  "countries_of (JArr [competition ''La Liga'' ''PD'' ''Spain'' ''TIER_ONE'',
                       competition ''Serie A'' ''SA'' ''Italy'' ''TIER_ONE''])
     = Inr [JStr ''Italy'', JStr ''Spain'']"
  by (auto simp: countries_of_def competition_def area_if_named_def py_get2_def sorted_set_def
        py_sort_pairs_def all_comparable_def stable_sort_def not_after_def)

lemma home_page_example:
  assumes "fst (home_fetch example_env out initial_world)
     = Inr \<lparr>competitions = two_competitions, using_fallback = False,
            live_matches = JArr example_FALLBACK_MATCHES, matches_fallback = b,
            upcoming_matches = JArr example_upcoming, upcoming_fallback = True\<rparr>"
    and "cache_data (snd (home_fetch example_env out initial_world)) = two_competitions"
    and "cache_timestamp (snd (home_fetch example_env out initial_world)) = 1000"
    and "t_second out = 1001"
  shows "fst (home ascii_lower example_env out plain_query initial_world) = example_page"
proof -
  obtain w3 where f: "home_fetch example_env out initial_world
     = (Inr \<lparr>competitions = two_competitions, using_fallback = False,
             live_matches = JArr example_FALLBACK_MATCHES, matches_fallback = b,
             upcoming_matches = JArr example_upcoming, upcoming_fallback = True\<rparr>, w3)"
    and c: "cache_data w3 = two_competitions" "cache_timestamp w3 = 1000"
    using assms by (cases "home_fetch example_env out initial_world") auto
  have p: "home_prepare ascii_lower example_env [] []
       \<lparr>competitions = two_competitions, using_fallback = False,
        live_matches = JArr example_FALLBACK_MATCHES, matches_fallback = b,
        upcoming_matches = JArr example_upcoming, upcoming_fallback = True\<rparr>
     = (case (process_all (process_live example_env) (JArr example_FALLBACK_MATCHES),
              process_all (process_upcoming example_env) (JArr example_upcoming)) of
          (Inr pm, Inr pu) \<Rightarrow> Inr (pm, pu, two_competitions)
        | (Inl x, r) \<Rightarrow> Inl x
        | (Inr pm, Inl x) \<Rightarrow> Inl x)"
    by (simp add: home_prepare_def processed_live_example processed_upcoming_example
          filter_by_search_def filter_by_country_def)
  have s: "sort_in_place ''name'' True False (interrupted out) two_competitions w3
     = (Inr (JArr [competition ''La Liga'' ''PD'' ''Spain'' ''TIER_ONE'',
                   competition ''Serie A'' ''SA'' ''Italy'' ''TIER_ONE'']),
        w3\<lparr>cache_data := JArr [competition ''La Liga'' ''PD'' ''Spain'' ''TIER_ONE'',
                                competition ''Serie A'' ''SA'' ''Italy'' ''TIER_ONE'']\<rparr>)"
    by (simp add: sort_in_place_def put_back_def sorted_two_competitions)
  have k: "fst (home_countries example_env out
        (w3\<lparr>cache_data := JArr [competition ''La Liga'' ''PD'' ''Spain'' ''TIER_ONE'',
                                competition ''Serie A'' ''SA'' ''Italy'' ''TIER_ONE'']\<rparr>))
     = Inr [JStr ''Italy'', JStr ''Spain'']"
    using c assms(4)
    by (simp add: home_countries_def get_competitions_data_def cache_fresh_def
          CACHE_DURATION_def countries_of_sorted_two)
  have l: "ascii_lower [] = []"
    by (simp add: ascii_lower_def)
  obtain w5 where k': "home_countries example_env out
        (w3\<lparr>cache_data := JArr [competition ''La Liga'' ''PD'' ''Spain'' ''TIER_ONE'',
                                competition ''Serie A'' ''SA'' ''Italy'' ''TIER_ONE'']\<rparr>)
     = (Inr [JStr ''Italy'', JStr ''Spain''], w5)"
    using k
    by (cases "home_countries example_env out
        (w3\<lparr>cache_data := JArr [competition ''La Liga'' ''PD'' ''Spain'' ''TIER_ONE'',
                                competition ''Serie A'' ''SA'' ''Italy'' ''TIER_ONE'']\<rparr>)") auto
  show ?thesis
    by (simp add: home_def home_try_def plain_query_def arg_or_def l f p s k'
          processed_live_example processed_upcoming_example example_page_def Let_def)
qed

text \<open>
  Claim C6 at a concrete request. With a credential, the competitions endpoint answering
  200 and the matches endpoint down, \<^verbatim>\<open>get_live_matches\<close> and
  \<^verbatim>\<open>get_upcoming_matches\<close> both return the flag true; when the matches endpoint
  instead returns the same matches for today, the live flag is false. In both requests
  \<^verbatim>\<open>home\<close> passes the same arguments to the template, with no status message and no
  error message: the two flags do not reach the presentation layer.
\<close>

theorem match_flags_not_passed_to_template:
  "fst (home_fetch example_env outside_live_down initial_world)
     = Inr \<lparr>competitions = two_competitions, using_fallback = False,
            live_matches = JArr example_FALLBACK_MATCHES, matches_fallback = True,
            upcoming_matches = JArr example_upcoming, upcoming_fallback = True\<rparr>
   \<and> fst (home_fetch example_env outside_live_up initial_world)
     = Inr \<lparr>competitions = two_competitions, using_fallback = False,
            live_matches = JArr example_FALLBACK_MATCHES, matches_fallback = False,
            upcoming_matches = JArr example_upcoming, upcoming_fallback = True\<rparr>
   \<and> fst (home ascii_lower example_env outside_live_down plain_query initial_world)
     = example_page
   \<and> fst (home ascii_lower example_env outside_live_up plain_query initial_world)
     = example_page
   \<and> ctx_status_message example_page = None
   \<and> ctx_error_message example_page = None"
proof -
  have t: "t_second outside_live_down = 1001" "t_second outside_live_up = 1001"
    by (simp_all add: outside_live_up_def outside_live_down_def)
  have d: "fst (home ascii_lower example_env outside_live_down plain_query initial_world)
     = example_page"
    by (rule home_page_example [OF fetch_live_down fetched_cache(1) fetched_cache(2) t(1)])
  have u: "fst (home ascii_lower example_env outside_live_up plain_query initial_world)
     = example_page"
    by (rule home_page_example [OF fetch_live_up fetched_cache(3) fetched_cache(4) t(2)])
  have m: "ctx_status_message example_page = None \<and> ctx_error_message example_page = None"
    by (simp add: example_page_def)
  from fetch_live_down fetch_live_up d u m show ?thesis
    by blast
qed

section \<open>The fallback list keeps its entries\<close>

lemma competitions_keep_fallback:
  "fallback_competitions (snd (get_competitions_data e net t w)) = fallback_competitions w"
  using competitions_try_cases [of e net t w]
  by (auto simp: get_competitions_data_def)

lemma competitions_flag_true:
  assumes "get_competitions_data e net t w = (Inr (d, True), w')"
  shows "d = JArr (fallback_competitions w)"
  using assms competitions_try_cases [of e net t w]
  by (auto simp: get_competitions_data_def split: if_splits)

lemma live_keeps_fallback:
  "fallback_competitions (snd (get_live_matches e net now w)) = fallback_competitions w"
  using live_try_cache [of e net now w] by (simp add: get_live_matches_snd)

lemma upcoming_keeps_fallback:
  "fallback_competitions (snd (get_upcoming_matches e net clk w)) = fallback_competitions w"
  using upcoming_try_cache [of e net clk w] get_upcoming_matches_snd [of e net clk w]
  by auto

lemma home_fetch_keeps_fallback:
  "fallback_competitions (snd (home_fetch e out w)) = fallback_competitions w"
proof -
  obtain r1 w1 where a: "get_competitions_data e (net_first out) (t_first out) w = (r1, w1)"
    by (cases "get_competitions_data e (net_first out) (t_first out) w")
  obtain r2 w2 where b: "get_live_matches e (net_live out) (live_now out) w1 = (r2, w2)"
    by (cases "get_live_matches e (net_live out) (live_now out) w1")
  obtain r3 w3 where c: "get_upcoming_matches e (net_upcoming out) (upcoming_clock out) w2 = (r3, w3)"
    by (cases "get_upcoming_matches e (net_upcoming out) (upcoming_clock out) w2")
  have "fallback_competitions w1 = fallback_competitions w"
    using competitions_keep_fallback [of e "net_first out" "t_first out" w] a by simp
  moreover have "fallback_competitions w2 = fallback_competitions w1"
    using live_keeps_fallback [of e "net_live out" "live_now out" w1] b by simp
  moreover have "fallback_competitions w3 = fallback_competitions w2"
    using upcoming_keeps_fallback [of e "net_upcoming out" "upcoming_clock out" w2] c by simp
  ultimately show ?thesis
    using a b c by (auto simp: home_fetch_def split: sum.splits)
qed

lemma home_fetch_from_fallback:
  assumes "home_fetch e out w = (Inr l, w3)" and "using_fallback l"
  shows "competitions l = JArr (fallback_competitions w)"
proof -
  obtain r1 w1 where a: "get_competitions_data e (net_first out) (t_first out) w = (r1, w1)"
    by (cases "get_competitions_data e (net_first out) (t_first out) w")
  from assms a obtain d where "r1 = Inr (d, True)" and "competitions l = d"
    by (auto simp: home_fetch_def split: sum.splits prod.splits)
  with a competitions_flag_true [of e "net_first out" "t_first out" w d w1]
  show ?thesis
    by simp
qed

lemma map_err_length: "map_err f xs = Inr ys \<Longrightarrow> length ys = length xs"
  by (induction xs arbitrary: ys) (auto split: sum.splits)

lemma mset_insort_by: "mset (insort_by le x ys) = add_mset x (mset ys)"
  by (induction ys) auto

lemma mset_stable_sort: "mset (stable_sort le xs) = mset xs"
  by (induction xs) (simp_all add: stable_sort_def mset_insort_by)

lemma py_sort_pairs_mset:
  assumes "py_sort_pairs (zip ks xs) = Inr ys" and "length ks = length xs"
  shows "mset ys = mset xs"
proof -
  have "mset (map snd (stable_sort le (zip ks xs))) = mset xs"
    for le :: "json \<times> 'a \<Rightarrow> json \<times> 'a \<Rightarrow> bool"
  proof -
    have "mset (map snd (stable_sort le (zip ks xs))) = image_mset snd (mset (zip ks xs))"
      by (simp add: mset_stable_sort)
    also have "\<dots> = mset (map snd (zip ks xs))"
      by simp
    finally show ?thesis
      using assms(2) by simp
  qed
  then show ?thesis
    using assms by (auto simp: py_sort_pairs_def split: if_splits)
qed

lemma sort_competitions_mset:
  assumes "sort_competitions s (JArr xs) = Inr (Some ys)"
  shows "mset ys = mset xs"
proof -
  from assms obtain f ks where "map_err f xs = Inr ks" and "py_sort_pairs (zip ks xs) = Inr ys"
    by (auto simp: sort_competitions_def py_sort_by_def split: if_splits sum.splits)
  then show ?thesis
    using py_sort_pairs_mset map_err_length by blast
qed

lemma sort_by_country_well_formed:
  assumes "\<forall>item\<in>set xs. well_formed item"
  shows "sort_competitions ''country'' (JArr xs) = Inr (Some (sort_key comp_area xs))"
proof -
  have "map_err area_name xs = Inr (map (\<lambda>x. JStr (comp_area x)) xs)"
    using assms by (intro map_err_total) (simp add: well_formed_area)
  then show ?thesis
    by (simp add: sort_competitions_def py_sort_by_def py_sort_pairs_strings)
qed

lemma sort_well_formed_succeeds:
  assumes "\<forall>item\<in>set xs. well_formed item"
  shows "\<exists>r. sort_competitions s (JArr xs) = Inr r"
proof (cases "s = ''name''")
  case True
  with assms show ?thesis
    by (simp add: sort_by_name_well_formed)
next
  case False
  show ?thesis
  proof (cases "s = ''country''")
    case True
    with assms show ?thesis
      by (simp add: sort_by_country_well_formed)
  next
    case c: False
    with False show ?thesis
      by (simp add: sort_competitions_def)
  qed
qed

lemma FALLBACK_COMPETITIONS_well_formed:
  "\<forall>item\<in>set FALLBACK_COMPETITIONS. well_formed item"
  by (simp add: FALLBACK_COMPETITIONS_def competition_def well_formed_def text_field_def)

lemma fallback_intact_well_formed:
  assumes "fallback_intact w"
  shows "\<forall>item\<in>set (fallback_competitions w). well_formed item"
proof -
  have "set (fallback_competitions w) = set FALLBACK_COMPETITIONS"
    using assms by (auto simp: fallback_intact_def dest: mset_eq_setD)
  then show ?thesis
    using FALLBACK_COMPETITIONS_well_formed by simp
qed

text \<open>The in-place sort keeps the entries of the static list: the list is made of
  well-formed records, so the sort does not raise on it and leaves a rearrangement.\<close>

lemma sort_in_place_keeps_entries:
  assumes "fallback_intact w"
    and "same_list \<and> from_fallback \<longrightarrow> filtered = JArr (fallback_competitions w)"
  shows "fallback_intact (snd (sort_in_place s same_list from_fallback left filtered w))"
proof (cases "same_list \<and> from_fallback")
  case True
  with assms(2) have f: "filtered = JArr (fallback_competitions w)"
    by simp
  obtain r where r: "sort_competitions s filtered = Inr r"
    using sort_well_formed_succeeds [OF fallback_intact_well_formed [OF assms(1)], of s] f
    by auto
  show ?thesis
  proof (cases r)
    case None
    with r assms(1) show ?thesis
      by (simp add: sort_in_place_def)
  next
    case (Some ys)
    with r f have "mset ys = mset (fallback_competitions w)"
      using sort_competitions_mset by simp
    with True r Some assms(1) show ?thesis
      by (simp add: sort_in_place_def put_back_def fallback_intact_def)
  qed
next
  case False
  with assms(1) show ?thesis
    by (auto simp: sort_in_place_def put_back_def fallback_intact_def
          split: sum.splits option.splits json.splits)
qed

text \<open>A cached list whose names cannot be compared: the sort raises, and the cache is
  left in the order in which the sort was interrupted.\<close>

lemma sort_in_place_interrupted:
  "sort_in_place ''name'' True False left
       (JArr [JObj [(''name'', JStr ''Serie A'')], JObj [(''name'', JInt 1)]]) w
     = (Inl TypeError,
        w\<lparr>cache_data :=
             JArr (left [JObj [(''name'', JStr ''Serie A'')], JObj [(''name'', JInt 1)]])\<rparr>)"
  by (simp add: sort_in_place_def put_back_def sort_competitions_def py_sort_by_def
        name_key_def py_sort_pairs_def all_comparable_def)

lemma home_prepare_unfiltered:
  "home_prepare lower e [] [] l = Inr (pm, pu, filtered) \<Longrightarrow> filtered = competitions l"
  by (auto simp: home_prepare_def filter_by_search_def filter_by_country_def split: sum.splits)

lemma sort_in_place_unsorted:
  "sort_in_place s False b left filtered w = (r, w') \<Longrightarrow> w' = w"
  by (auto simp: sort_in_place_def split: sum.splits option.splits)

lemma home_countries_keeps_fallback:
  "fallback_competitions (snd (home_countries e out w)) = fallback_competitions w"
  using competitions_keep_fallback [of e "net_second out" "t_second out" w]
  by (auto simp: home_countries_def split: prod.splits sum.splits)

text \<open>Every request leaves the thirteen static entries in \<^verbatim>\<open>FALLBACK_COMPETITIONS\<close>,
  whatever order the in-place sort gave them; so do the three fetch operations.\<close>

lemma home_keeps_fallback_intact:
  assumes "fallback_intact w"
  shows "fallback_intact (snd (home lower e out q w))"
proof -
  let ?sq = "lower (arg_or (search_arg q) [])"
  let ?fc = "arg_or (country_arg q) []"
  obtain r w3 where f: "home_fetch e out w = (r, w3)"
    by (cases "home_fetch e out w")
  have w3: "fallback_competitions w3 = fallback_competitions w"
    using home_fetch_keeps_fallback [of e out w] f by simp
  then have i3: "fallback_intact w3"
    using assms by (simp add: fallback_intact_def)
  show ?thesis
  proof (cases r)
    case (Inl x)
    with f i3 show ?thesis
      by (simp add: home_def home_try_def Let_def)
  next
    case (Inr l)
    show ?thesis
    proof (cases "home_prepare lower e ?sq ?fc l")
      case (Inl x)
      with f Inr i3 show ?thesis
        by (simp add: home_def home_try_def Let_def)
    next
      case p: (Inr t)
      obtain pm pu filtered where t: "t = (pm, pu, filtered)"
        by (cases t) auto
      obtain s w4 where s: "sort_in_place (arg_or (sort_arg q) ''name'') (?sq = [] \<and> ?fc = [])
                              (using_fallback l) (interrupted out) filtered w3 = (s, w4)"
        by (cases "sort_in_place (arg_or (sort_arg q) ''name'') (?sq = [] \<and> ?fc = [])
                     (using_fallback l) (interrupted out) filtered w3")
      have "(?sq = [] \<and> ?fc = []) \<and> using_fallback l
              \<longrightarrow> filtered = JArr (fallback_competitions w3)"
        using home_prepare_unfiltered [of lower e l pm pu filtered] p t
              home_fetch_from_fallback [of e out w l w3] f Inr w3
        by auto
      with i3 have i4: "fallback_intact w4"
        using sort_in_place_keeps_entries
                [of w3 "?sq = [] \<and> ?fc = []" "using_fallback l" filtered
                    "arg_or (sort_arg q) ''name''" "interrupted out"] s
        by simp
      obtain c w5 where c: "home_countries e out w4 = (c, w5)"
        by (cases "home_countries e out w4")
      have i5: "fallback_intact w5"
        using home_countries_keeps_fallback [of e out w4] c i4
        by (simp add: fallback_intact_def)
      show ?thesis
        using f Inr p t s c i4 i5
        by (auto simp: home_def home_try_def Let_def split: sum.splits)
    qed
  qed
qed

lemma fetches_keep_fallback_intact:
  assumes "fallback_intact w"
  shows "fallback_intact (snd (get_competitions_data e net t w))
     \<and> fallback_intact (snd (get_live_matches e net now w))
     \<and> fallback_intact (snd (get_upcoming_matches e net clk w))"
  using assms
  by (simp add: fallback_intact_def competitions_keep_fallback live_keeps_fallback
        upcoming_keeps_fallback)

text \<open>
  Claim C5. The cache is not changed by the fetch operations alone: the route handler
  changes its contents without any fetch. A request with no query parameters, served
  from the cache one second after the competitions were stored, with no credential
  configured, sends nothing to the network; \<^verbatim>\<open>get_competitions_data\<close> returns the
  cached list with the flag false; and after the request the cached list is in another
  order, sorted by name in place by line 249, under the unchanged timestamp.
\<close>

theorem home_reorders_cache_without_fetch:
  "cache_data cached_world
     = JArr [competition ''Serie A'' ''SA'' ''Italy'' ''TIER_ONE'',
             competition ''La Liga'' ''PD'' ''Spain'' ''TIER_ONE'']
   \<and> cache_timestamp cached_world = 1000
   \<and> sent cached_world = []
   \<and> fst (get_competitions_data keyless_env (net_first outside_quiet) (t_first outside_quiet)
            cached_world)
     = Inr (JArr [competition ''Serie A'' ''SA'' ''Italy'' ''TIER_ONE'',
                  competition ''La Liga'' ''PD'' ''Spain'' ''TIER_ONE''], False)
   \<and> cache_data (snd (home ascii_lower keyless_env outside_quiet plain_query cached_world))
     = JArr [competition ''La Liga'' ''PD'' ''Spain'' ''TIER_ONE'',
             competition ''Serie A'' ''SA'' ''Italy'' ''TIER_ONE'']
   \<and> cache_timestamp
         (snd (home ascii_lower keyless_env outside_quiet plain_query cached_world))
     = 1000
   \<and> sent (snd (home ascii_lower keyless_env outside_quiet plain_query cached_world)) = []"
proof -
  let ?sorted = "JArr [competition ''La Liga'' ''PD'' ''Spain'' ''TIER_ONE'',
                       competition ''Serie A'' ''SA'' ''Italy'' ''TIER_ONE'']"
  have t: "truthy two_competitions"
    by (simp add: two_competitions_def)
  have g: "get_competitions_data keyless_env (net_first outside_quiet) (t_first outside_quiet)
             cached_world = (Inr (two_competitions, False), cached_world)"
    by (simp add: get_competitions_data_def cache_fresh_def CACHE_DURATION_def
          cached_world_def outside_quiet_def outside_live_down_def t)
  have f: "home_fetch keyless_env outside_quiet cached_world
     = (Inr \<lparr>competitions = two_competitions, using_fallback = False,
             live_matches = JArr example_FALLBACK_MATCHES, matches_fallback = True,
             upcoming_matches = JArr example_upcoming, upcoming_fallback = True\<rparr>,
        cached_world)"
    unfolding home_fetch_def g
    by (simp add: outside_quiet_def outside_live_down_def keyless_env_def key_configured_def
          get_live_matches_def live_try_def get_upcoming_matches_def upcoming_try_def
          example_upcoming_fixtures example_days_ahead length_example_FALLBACK_MATCHES Let_def)
  have p: "home_prepare ascii_lower keyless_env [] []
       \<lparr>competitions = two_competitions, using_fallback = False,
        live_matches = JArr example_FALLBACK_MATCHES, matches_fallback = True,
        upcoming_matches = JArr example_upcoming, upcoming_fallback = True\<rparr>
     = (case (process_all (process_live keyless_env) (JArr example_FALLBACK_MATCHES),
              process_all (process_upcoming keyless_env) (JArr example_upcoming)) of
          (Inr pm, Inr pu) \<Rightarrow> Inr (pm, pu, two_competitions)
        | (Inl x, r) \<Rightarrow> Inl x
        | (Inr pm, Inl x) \<Rightarrow> Inl x)"
    by (simp add: home_prepare_def processed_live_example processed_upcoming_example
          filter_by_search_def filter_by_country_def)
  have s: "sort_in_place ''name'' True False (interrupted outside_quiet) two_competitions
             cached_world
     = (Inr ?sorted, cached_world\<lparr>cache_data := ?sorted\<rparr>)"
    by (simp add: sort_in_place_def put_back_def sorted_two_competitions)
  have k: "home_countries keyless_env outside_quiet (cached_world\<lparr>cache_data := ?sorted\<rparr>)
     = (Inr [JStr ''Italy'', JStr ''Spain''], cached_world\<lparr>cache_data := ?sorted\<rparr>)"
    by (simp add: home_countries_def get_competitions_data_def cache_fresh_def
          CACHE_DURATION_def countries_of_sorted_two outside_quiet_def outside_live_down_def
          cached_world_def)
  have a: "ascii_lower [] = []"
    by (simp add: ascii_lower_def)
  have h: "snd (home ascii_lower keyless_env outside_quiet plain_query cached_world)
     = cached_world\<lparr>cache_data := ?sorted\<rparr>"
    by (simp add: home_def home_try_def plain_query_def arg_or_def a f p s k
          processed_live_example processed_upcoming_example Let_def)
  have c: "cache_data cached_world
             = JArr [competition ''Serie A'' ''SA'' ''Italy'' ''TIER_ONE'',
                     competition ''La Liga'' ''PD'' ''Spain'' ''TIER_ONE'']"
    "cache_timestamp cached_world = 1000" "sent cached_world = []"
    by (simp_all add: cached_world_def initial_world_def two_competitions_def)
  have g': "fst (get_competitions_data keyless_env (net_first outside_quiet)
                   (t_first outside_quiet) cached_world)
     = Inr (JArr [competition ''Serie A'' ''SA'' ''Italy'' ''TIER_ONE'',
                  competition ''La Liga'' ''PD'' ''Spain'' ''TIER_ONE''], False)"
    unfolding g by (simp add: two_competitions_def)
  show ?thesis
    unfolding h using c g' by simp
qed

end
